theory Spec2Isabelle
  imports Complex_Main "HOL-Library.Log_Nat"
begin

section \<open>Python values used by \<open>mstrio/project_objects/report.py\<close>\<close>

text \<open>
  Exceptions that the modelled code can raise or let through.  \<open>HTTPError\<close> is
  \<open>requests.HTTPError\<close>, the only one caught by \<open>to_dataframe\<close>; \<open>RequestException\<close>
  stands for every other exception of the transport layer, \<open>JSONDecodeError\<close> for the
  exception of \<open>response.json()\<close> on a body that is not JSON.
\<close>

datatype error =
    ValueError
  | AttributeError
  | ImportError
  | IndexError
  | ZeroDivisionError
  | OverflowError
  | KeyError
  | JSONDecodeError
  | HTTPError
  | RequestException

subsection \<open>True division of integers and \<open>int()\<close> of the quotient\<close>

text \<open>
  \<open>a / b\<close> on two Python integers is the binary64 number nearest to the exact quotient
  (ties to even); it raises \<open>ZeroDivisionError\<close> for \<open>b = 0\<close> and \<open>OverflowError\<close> when
  the rounded quotient does not fit a binary64.  A finite binary64 value is kept as the
  rational number it denotes.
\<close>

definition pow2 :: "int \<Rightarrow> rat" where
  "pow2 e = (if 0 \<le> e then 2 ^ nat e else 1 / 2 ^ nat (- e))"

definition round_half_even :: "rat \<Rightarrow> int" where
  "round_half_even x =
     (let f = \<lfloor>x\<rfloor>; d = x - of_int f
      in if d < 1 / 2 then f
         else if 1 / 2 < d then f + 1
         else if even f then f else f + 1)"

text \<open>The binary exponent \<open>e\<close> of a positive quotient \<open>a / b\<close>: \<open>2^e \<le> a / b < 2^(e+1)\<close>.\<close>

definition ilog2 :: "int \<Rightarrow> int \<Rightarrow> int" where
  "ilog2 a b =
     (let d = bitlen a - bitlen b
      in if of_int b * pow2 d \<le> (of_int a :: rat) then d else d - 1)"

definition float_round_pos :: "int \<Rightarrow> int \<Rightarrow> error + rat" where
  "float_round_pos a b =
     (let e = max (ilog2 a b) (- 1022);
          u = pow2 (e - 52);
          n = round_half_even (of_int a / of_int b / u);
          y = of_int n * u
      in if pow2 1024 \<le> y then Inl OverflowError else Inr y)"

definition truediv :: "int \<Rightarrow> int \<Rightarrow> error + rat" where
  "truediv a b =
     (if b = 0 then Inl ZeroDivisionError
      else if a = 0 then Inr 0
      else case float_round_pos \<bar>a\<bar> \<bar>b\<bar> of
             Inl e \<Rightarrow> Inl e
           | Inr y \<Rightarrow> Inr (if (a < 0) = (b < 0) then y else - y))"

text \<open>\<open>int(x)\<close> of a float truncates towards zero.\<close>

definition int_of_float :: "rat \<Rightarrow> int" where
  "int_of_float y = (if 0 \<le> y then \<lfloor>y\<rfloor> else \<lceil>y\<rceil>)"

definition int_truediv :: "int \<Rightarrow> int \<Rightarrow> error + int" where
  "int_truediv a b = (case truediv a b of Inl e \<Rightarrow> Inl e | Inr y \<Rightarrow> Inr (int_of_float y))"

subsection \<open>\<open>range(start, stop, step)\<close>\<close>

function range_up :: "int \<Rightarrow> int \<Rightarrow> int \<Rightarrow> int list" where
  "range_up a b s = (if 0 < s \<and> a < b then a # range_up (a + s) b s else [])"
  by pat_completeness auto
termination
  by (relation "measure (\<lambda>(a, b, s). nat (b - a))") auto

function range_down :: "int \<Rightarrow> int \<Rightarrow> int \<Rightarrow> int list" where
  "range_down a b s = (if s < 0 \<and> b < a then a # range_down (a + s) b s else [])"
  by pat_completeness auto
termination
  by (relation "measure (\<lambda>(a, b, s). nat (a - b))") auto

declare range_up.simps [simp del] range_down.simps [simp del]

definition py_range :: "int \<Rightarrow> int \<Rightarrow> int \<Rightarrow> error + int list" where
  "py_range a b s =
     (if s = 0 then Inl ValueError
      else if 0 < s then Inr (range_up a b s)
      else Inr (range_down a b s))"

section \<open>Data model\<close>

text \<open>
  A row of the grid is kept as the list of its cell values; a table (the data frame) is
  the list of its rows, in order.
\<close>

type_synonym row = "string list"
type_synonym table = "row list"

text \<open>
  The JSON body of a response of the report-instance endpoints, as far as it is read:
  \<open>instanceId\<close>, \<open>data.paging.current\<close>, \<open>data.paging.total\<close> and the rows of the page.
\<close>

record page_json =
  instanceId :: string
  paging_current :: int
  paging_total :: int
  data_rows :: "row list"

text \<open>
  A \<open>requests.Response\<close>: \<open>response.ok\<close>, \<open>len(response.content)\<close>, and what the body
  decodes to, \<open>None\<close> for a body that is not JSON.  A body that is JSON is taken to
  carry the keys that are read.
\<close>

record response =
  ok :: bool
  content_length :: nat
  json_body :: "page_json option"

text \<open>
  \<open>response.json()\<close>: an empty body is never JSON, whatever \<open>json_body\<close> says.
\<close>

definition response_json :: "response \<Rightarrow> error + page_json" where
  "response_json res =
     (if content_length res = 0 then Inl JSONDecodeError
      else case json_body res of None \<Rightarrow> Inl JSONDecodeError | Some j \<Rightarrow> Inr j)"

record Filter =
  attr_selected :: "string list"
  metr_selected :: "string list"
  attr_elem_selected :: "string list"
  operator :: string

record cross_tab_selection =
  ctf_attributes :: "string list option"
  ctf_metrics :: "string list option"
  ctf_attr_elements :: "string list option"

record grid_unit =
  unit_type :: string
  unit_name :: string
  unit_id :: string
  elements :: "(string \<times> string) list"

datatype axis = Rows | Columns

text \<open>The JSON of \<open>GET /v2/reports/<report_id>\<close>, as far as \<open>_get_definition\<close> reads it.\<close>

record report_definition =
  def_name :: string
  crossTab :: bool
  def_subtotals_visible :: "bool option"
  customGroups :: "string list"
  consolidations :: "string list"
  grid_rows :: "grid_unit list"
  grid_columns :: "grid_unit list"
  metricsPosition :: "(axis \<times> nat) option"

text \<open>
  The fields of a \<open>Report\<close> object set by \<open>_init_variables\<close>.  \<open>cross_tab_filter = None\<close> is
  the empty dictionary \<open>{}\<close>; \<open>subtotals_visible\<close> is the entry \<open>_subtotals["visible"]\<close>.
\<close>

record report =
  report_id :: string
  report_name :: string
  instance_id :: "string option"
  parallel :: bool
  initial_limit :: int
  progress_bar :: bool
  cross_tab :: bool
  cross_tab_filter :: "cross_tab_selection option"
  subtotals_visible :: "bool option"
  dataframe :: "table option"
  attr_elements :: "string list option"
  attributes :: "(string \<times> string) list"
  metrics :: "(string \<times> string) list"
  definition_retrieved :: bool
  filter_obj :: "Filter option"

record request_body =
  view_filter :: string
  body_subtotals_visible :: "bool option"

text \<open>Requests sent to the server, in the order in which they are issued.\<close>

datatype call =
    Get_object_info string
  | Get_report_definition string
  | Post_report_instance int int
  | Get_report_instance string int int

text \<open>
  The collaborators of \<open>report.py\<close> that are not part of it: the connection and the
  remote server (one function per endpoint, giving either the exception of the transport
  layer or the response), the class \<open>Filter\<close>, and the pandas operations on the columns
  of a data frame: \<open>df.columns\<close>, \<open>df.drop(names, axis=1)\<close> and
  \<open>df[name].isin(elements)\<close>, the last with one truth value per row.
\<close>

record env =
  project_selected :: bool
  iserver_version_ge_11_2_0100 :: bool
  config_progress_bar :: bool
  http_object_info :: "string \<Rightarrow> error + string"
  http_report_definition :: "string \<Rightarrow> error + report_definition"
  http_post_instance :: "string \<Rightarrow> request_body \<Rightarrow> int \<Rightarrow> int \<Rightarrow> error + response"
  http_get_instance :: "string \<Rightarrow> string \<Rightarrow> int \<Rightarrow> int \<Rightarrow> error + response"
  Filter_new :: "(string \<times> string) list \<Rightarrow> (string \<times> string) list \<Rightarrow> string list option \<Rightarrow> Filter"
  Filter_clear :: "Filter \<Rightarrow> string list option \<Rightarrow> string list option \<Rightarrow> string list option \<Rightarrow> Filter"
  Filter_set_operator :: "Filter \<Rightarrow> string \<Rightarrow> error + Filter"
  Filter_select :: "Filter \<Rightarrow> string list \<Rightarrow> error + Filter"
  Filter_select_attr_el :: "Filter \<Rightarrow> string list \<Rightarrow> error + Filter"
  Filter_request_body :: "Filter \<Rightarrow> string"
  frame_columns :: "table \<Rightarrow> string list"
  frame_drop :: "string list \<Rightarrow> table \<Rightarrow> error + table"
  frame_isin :: "string \<Rightarrow> string list \<Rightarrow> table \<Rightarrow> error + bool list"

section \<open>Helpers of the package that \<open>report.py\<close> calls\<close>

text \<open>
  Modelled from the spec: \<open>mstrio.utils.helper.response_handler\<close>, whose code is
  missing.  Sections 4.2, 4.3 and 7 of the specification say that a failed fetch
  aborts the operation with the underlying error; the caller in \<open>to_dataframe\<close> catches
  it as \<open>requests.HTTPError\<close>.  So the handler raises \<open>HTTPError\<close> for the response
  that it is given.
\<close>

definition response_handler :: "response \<Rightarrow> error + unit" where
  "response_handler res = Inl HTTPError"

text \<open>
  Modelled from the spec: the wrappers of \<open>mstrio.api.reports\<close>, whose code is
  missing.  The synchronous ones send the request and hand a response that is not
  \<open>ok\<close> to \<open>response_handler\<close>; \<open>report_instance_id_coroutine\<close> sends the same request
  through the futures session, and \<open>result()\<close> of the future is the bare outcome.
\<close>

definition checked :: "error + response \<Rightarrow> error + response" where
  "checked out =
     (case out of
        Inl e \<Rightarrow> Inl e
      | Inr res \<Rightarrow>
          if ok res then Inr res
          else (case response_handler res of Inl e \<Rightarrow> Inl e | Inr _ \<Rightarrow> Inr res))"

definition report_instance ::
  "env \<Rightarrow> string \<Rightarrow> request_body \<Rightarrow> int \<Rightarrow> int \<Rightarrow> error + response" where
  "report_instance E rid body offset limit = checked (http_post_instance E rid body offset limit)"

definition report_instance_id ::
  "env \<Rightarrow> string \<Rightarrow> string \<Rightarrow> int \<Rightarrow> int \<Rightarrow> error + response" where
  "report_instance_id E rid iid offset limit = checked (http_get_instance E rid iid offset limit)"

definition report_instance_id_coroutine ::
  "env \<Rightarrow> string \<Rightarrow> string \<Rightarrow> int \<Rightarrow> int \<Rightarrow> error + response" where
  "report_instance_id_coroutine E rid iid offset limit = http_get_instance E rid iid offset limit"

text \<open>
  Modelled from the spec: the class \<open>mstrio.utils.parser.Parser\<close>, whose code is
  missing.  Section 4.2 of the specification: each returned page's rows are appended to the
  table in arrival order.  The parser is the table built so far.
\<close>

definition Parser_new :: "page_json \<Rightarrow> table" where
  "Parser_new j = []"

definition parse :: "table \<Rightarrow> page_json \<Rightarrow> table" where
  "parse p j = p @ data_rows j"

definition parser_dataframe :: "table \<Rightarrow> table" where
  "parser_dataframe p = p"

text \<open>
  Modelled from the spec: \<open>mstrio.utils.helper.exception_handler\<close>, whose code is
  missing; called with an exception type that is not a warning, it raises it.
\<close>

definition exception_handler :: "error \<Rightarrow> error + unit" where
  "exception_handler exception_type = Inl exception_type"

section \<open>The class \<open>Report\<close>\<close>

definition SIZE_LIMIT :: int where
  "SIZE_LIMIT = 10000000"

text \<open>Truth value of an optional integer argument: \<open>None\<close> and \<open>0\<close> are false.\<close>

definition truthy :: "int option \<Rightarrow> bool" where
  "truthy limit = (case limit of None \<Rightarrow> False | Some n \<Rightarrow> n \<noteq> 0)"

subsection \<open>\<open>_init_variables\<close> and \<open>__init__\<close>\<close>

definition init_variables :: "env \<Rightarrow> string \<Rightarrow> string \<Rightarrow> string option \<Rightarrow> bool \<Rightarrow> bool \<Rightarrow> report" where
  "init_variables E rid nm iid par pbar =
     \<lparr> report_id = rid, report_name = nm, instance_id = iid, parallel = par,
       initial_limit = 1000, progress_bar = (pbar \<and> config_progress_bar E),
       cross_tab = False, cross_tab_filter = None, subtotals_visible = None,
       dataframe = None, attr_elements = None, attributes = [], metrics = [],
       definition_retrieved = False, filter_obj = None \<rparr>"

text \<open>
  Modelled from the spec: \<open>Entity.__init__\<close>, whose code is missing.  The class wraps
  an object of the server (section 1 of the specification): the constructor asks the
  server for the object (\<open>http_object_info\<close>) and passes the answer and the keyword
  arguments to \<open>_init_variables\<close>.  \<open>connection._validate_project_selected()\<close> raises when the
  connection has no project.
\<close>

definition Report_init ::
  "env \<Rightarrow> call list \<Rightarrow> string \<Rightarrow> string option \<Rightarrow> bool \<Rightarrow> bool \<Rightarrow> (error + report) \<times> call list" where
  "Report_init E tr rid iid par pbar =
     (if rid = [] then (Inl ValueError, tr)
      else if \<not> project_selected E then (Inl AttributeError, tr)
      else (case http_object_info E rid of
              Inl e \<Rightarrow> (Inl e, tr @ [Get_object_info rid])
            | Inr nm \<Rightarrow> (Inr (init_variables E rid nm iid par pbar), tr @ [Get_object_info rid])))"

subsection \<open>\<open>_get_definition\<close> and the property \<open>_filter\<close>\<close>

definition get_definition :: "env \<Rightarrow> report \<Rightarrow> call list \<Rightarrow> (error + unit) \<times> report \<times> call list" where
  "get_definition E r tr =
     (let tr1 = tr @ [Get_report_definition (report_id r)]
      in case http_report_definition E (report_id r) of
           Inl e \<Rightarrow> (Inl e, r, tr1)
         | Inr d \<Rightarrow>
             (let r1 = (if iserver_version_ge_11_2_0100 E
                        then r\<lparr>subtotals_visible := def_subtotals_visible d\<rparr> else r);
                  r2 = r1\<lparr>report_name := def_name d, cross_tab := crossTab d\<rparr>
              in if customGroups d \<noteq> [] then (exception_handler ImportError, r2, tr1)
                 else if consolidations d \<noteq> [] then (exception_handler ImportError, r2, tr1)
                 else
                   (let full_attributes =
                          filter (\<lambda>u. unit_type u = ''attribute'') (grid_rows d)
                          @ filter (\<lambda>u. unit_type u = ''attribute'') (grid_columns d);
                        r3 = r2\<lparr>attributes := map (\<lambda>u. (unit_name u, unit_id u)) full_attributes\<rparr>
                    in case metricsPosition d of
                         None \<Rightarrow> (Inr (), r3\<lparr>metrics := [], definition_retrieved := True\<rparr>, tr1)
                       | Some (ax, i) \<Rightarrow>
                           (let units = (case ax of Rows \<Rightarrow> grid_rows d | Columns \<Rightarrow> grid_columns d)
                            in if i < length units
                               then (Inr (),
                                     r3\<lparr>metrics := elements (units ! i), definition_retrieved := True\<rparr>,
                                     tr1)
                               else (Inl IndexError, r3, tr1)))))"

definition filter_prop :: "env \<Rightarrow> report \<Rightarrow> call list \<Rightarrow> (error + Filter) \<times> report \<times> call list" where
  "filter_prop E r tr =
     (case (if \<not> definition_retrieved r then get_definition E r tr else (Inr (), r, tr)) of
        (Inl e, r1, tr1) \<Rightarrow> (Inl e, r1, tr1)
      | (Inr _, r1, tr1) \<Rightarrow>
          (case filter_obj r1 of
             Some f \<Rightarrow> (Inr f, r1, tr1)
           | None \<Rightarrow>
               (let f = Filter_new E (attributes r1) (metrics r1) (attr_elements r1)
                in (Inr f, r1\<lparr>filter_obj := Some f\<rparr>, tr1))))"

subsection \<open>\<open>apply_filters\<close>\<close>

definition select_attribute_filter_conditionally ::
  "env \<Rightarrow> Filter \<Rightarrow> string list option \<Rightarrow> error + Filter" where
  "select_attribute_filter_conditionally E f attributes_filtered =
     (case attributes_filtered of
        None \<Rightarrow> Inr f
      | Some xs \<Rightarrow> if xs \<noteq> [] then Filter_select E f xs else Inr (f\<lparr>attr_selected := []\<rparr>))"

definition select_metric_filter_conditionally ::
  "env \<Rightarrow> Filter \<Rightarrow> string list option \<Rightarrow> error + Filter" where
  "select_metric_filter_conditionally E f metrics_filtered =
     (case metrics_filtered of
        None \<Rightarrow> Inr f
      | Some xs \<Rightarrow> if xs \<noteq> [] then Filter_select E f xs else Inr (f\<lparr>metr_selected := []\<rparr>))"

definition select_attr_el_filter_conditionally ::
  "env \<Rightarrow> Filter \<Rightarrow> string list option \<Rightarrow> error + Filter" where
  "select_attr_el_filter_conditionally E f attr_el_filtered =
     (case attr_el_filtered of
        None \<Rightarrow> Inr f
      | Some xs \<Rightarrow> Filter_select_attr_el E f xs)"

text \<open>
  The filter object is shared with the report, so every change made to it before an
  exception stays in \<open>filter_obj\<close>.
\<close>

definition apply_filters ::
  "env \<Rightarrow> report \<Rightarrow> call list \<Rightarrow> string list option \<Rightarrow> string list option \<Rightarrow> string list option
     \<Rightarrow> string \<Rightarrow> (error + unit) \<times> report \<times> call list" where
  "apply_filters E r tr attrs metrs attr_els oper =
     (let filtering_is_requested = (\<not> (attrs = None \<and> metrs = None \<and> attr_els = None))
      in if cross_tab r
         then (Inr (),
               r\<lparr>cross_tab_filter :=
                    Some \<lparr>ctf_attributes = attrs, ctf_metrics = metrs, ctf_attr_elements = attr_els\<rparr>\<rparr>,
               tr)
         else if filtering_is_requested
         then (case filter_prop E r tr of
                 (Inl e, r1, tr1) \<Rightarrow> (Inl e, r1, tr1)
               | (Inr f, r1, tr1) \<Rightarrow>
                   (let f1 = Filter_clear E f attrs metrs attr_els
                    in case Filter_set_operator E f1 oper of
                         Inl e \<Rightarrow> (Inl e, r1\<lparr>filter_obj := Some f1\<rparr>, tr1)
                       | Inr f2 \<Rightarrow>
                   (case select_attribute_filter_conditionally E f2 attrs of
                         Inl e \<Rightarrow> (Inl e, r1\<lparr>filter_obj := Some f2\<rparr>, tr1)
                       | Inr f3 \<Rightarrow>
                   (case select_metric_filter_conditionally E f3 metrs of
                         Inl e \<Rightarrow> (Inl e, r1\<lparr>filter_obj := Some f3\<rparr>, tr1)
                       | Inr f4 \<Rightarrow>
                   (case select_attr_el_filter_conditionally E f4 attr_els of
                         Inl e \<Rightarrow> (Inl e, r1\<lparr>filter_obj := Some f4\<rparr>, tr1)
                       | Inr f5 \<Rightarrow>
                           (Inr (), r1\<lparr>filter_obj := Some f5, instance_id := None\<rparr>, tr1))))))
         else (Inr (), r, tr))"

subsection \<open>\<open>__initialize_report\<close> and \<open>__get_chunk\<close>\<close>

text \<open>The argument \<open>limit\<close> of \<open>__initialize_report\<close> is not used by its body.\<close>

definition initialize_report ::
  "env \<Rightarrow> report \<Rightarrow> call list \<Rightarrow> int \<Rightarrow> (error + response) \<times> report \<times> call list" where
  "initialize_report E r tr limit =
     (case filter_prop E r tr of
        (Inl e, r1, tr1) \<Rightarrow> (Inl e, r1, tr1)
      | (Inr f, r1, tr1) \<Rightarrow>
          (let ge = iserver_version_ge_11_2_0100 E;
               r2 = (if ge then r1\<lparr>subtotals_visible := Some False\<rparr> else r1);
               body = \<lparr> view_filter = Filter_request_body E f,
                        body_subtotals_visible = (if ge then Some False else None) \<rparr>
           in (report_instance E (report_id r2) body 0 (initial_limit r2), r2,
               tr1 @ [Post_report_instance 0 (initial_limit r2)])))"

definition get_chunk ::
  "env \<Rightarrow> report \<Rightarrow> call list \<Rightarrow> string \<Rightarrow> int \<Rightarrow> int \<Rightarrow> (error + response) \<times> call list" where
  "get_chunk E r tr iid offset limit =
     (report_instance_id E (report_id r) iid offset limit,
      tr @ [Get_report_instance iid offset limit])"

subsection \<open>\<open>__fetch_chunks\<close>: the sequential loop\<close>

fun fetch_chunks_loop ::
  "env \<Rightarrow> report \<Rightarrow> string \<Rightarrow> int \<Rightarrow> int list \<Rightarrow> table \<Rightarrow> call list \<Rightarrow> (error + table) \<times> call list" where
  "fetch_chunks_loop E r iid limit [] parser tr = (Inr parser, tr)"
| "fetch_chunks_loop E r iid limit (offset # offsets) parser tr =
     (case get_chunk E r tr iid offset limit of
        (Inl e, tr1) \<Rightarrow> (Inl e, tr1)
      | (Inr res, tr1) \<Rightarrow>
          (case response_json res of
             Inl e \<Rightarrow> (Inl e, tr1)
           | Inr j \<Rightarrow> fetch_chunks_loop E r iid limit offsets (parse parser j) tr1))"

definition fetch_chunks ::
  "env \<Rightarrow> report \<Rightarrow> call list \<Rightarrow> table \<Rightarrow> int \<Rightarrow> int \<Rightarrow> string \<Rightarrow> int \<Rightarrow> (error + table) \<times> call list" where
  "fetch_chunks E r tr parser pag_total it_total iid limit =
     (case py_range (initial_limit r) pag_total limit of
        Inl e \<Rightarrow> (Inl e, tr)
      | Inr offsets \<Rightarrow> fetch_chunks_loop E r iid limit offsets parser tr)"

subsection \<open>\<open>__fetch_chunks_future\<close> and the loop over the futures\<close>

text \<open>
  The list comprehension submits one request per offset before any result is read, so
  all of them are issued; a future is kept as the outcome that \<open>result()\<close> gives.  The
  number of worker threads (\<open>get_parallel_number\<close>) decides only how many requests are in
  flight at once.
\<close>

definition fetch_chunks_future ::
  "env \<Rightarrow> report \<Rightarrow> call list \<Rightarrow> int \<Rightarrow> string \<Rightarrow> int
     \<Rightarrow> (error + (error + response) list) \<times> call list" where
  "fetch_chunks_future E r tr pag_total iid limit =
     (case py_range (initial_limit r) pag_total limit of
        Inl e \<Rightarrow> (Inl e, tr)
      | Inr offsets \<Rightarrow>
          (Inr (map (\<lambda>offset. report_instance_id_coroutine E (report_id r) iid offset limit) offsets),
           tr @ map (\<lambda>offset. Get_report_instance iid offset limit) offsets))"

fun parse_futures :: "table \<Rightarrow> (error + response) list \<Rightarrow> error + table" where
  "parse_futures p [] = Inr p"
| "parse_futures p (f # future) =
     (case f of
        Inl e \<Rightarrow> Inl e
      | Inr res \<Rightarrow>
          (case (if \<not> ok res then response_handler res else Inr ()) of
             Inl e \<Rightarrow> Inl e
           | Inr _ \<Rightarrow>
               (case response_json res of
                  Inl e \<Rightarrow> Inl e
                | Inr j \<Rightarrow> parse_futures (parse p j) future)))"

subsection \<open>\<open>to_dataframe\<close>\<close>

text \<open>Lines 315 to 319: the rows per chunk.\<close>

definition chunk_limit :: "int option \<Rightarrow> int \<Rightarrow> nat \<Rightarrow> error + int" where
  "chunk_limit limit il content_len =
     (if truthy limit then Inr (the limit)
      else case int_truediv (il * SIZE_LIMIT) (int content_len) of
             Inl e \<Rightarrow> Inl e
           | Inr q \<Rightarrow> Inr (max 1000 q))"

text \<open>Lines 321 to 323: the count of additional iterations.\<close>

definition it_total_of :: "int \<Rightarrow> int \<Rightarrow> int \<Rightarrow> error + int" where
  "it_total_of pag_total il limit =
     (case int_truediv (pag_total - il) limit of
        Inl e \<Rightarrow> Inl e
      | Inr q \<Rightarrow> Inr (q + (if (pag_total - il) mod limit \<noteq> 0 then 1 else 0)))"

text \<open>Lines 288 to 302: the first page.\<close>

definition first_page :: "env \<Rightarrow> report \<Rightarrow> call list \<Rightarrow> (error + response) \<times> report \<times> call list" where
  "first_page E r tr =
     (case instance_id r of
        None \<Rightarrow> initialize_report E r tr (initial_limit r)
      | Some iid \<Rightarrow>
          (case get_chunk E r tr iid 0 (initial_limit r) of
             (Inl e, tr1) \<Rightarrow>
               if e = HTTPError then initialize_report E r tr1 (initial_limit r)
               else (Inl e, r, tr1)
           | (Inr res, tr1) \<Rightarrow> (Inr res, r, tr1)))"

text \<open>Lines 315 to 352: the pages after the first.\<close>

definition fetch_rest ::
  "env \<Rightarrow> report \<Rightarrow> call list \<Rightarrow> int option \<Rightarrow> nat \<Rightarrow> int \<Rightarrow> string \<Rightarrow> table
     \<Rightarrow> (error + table) \<times> call list" where
  "fetch_rest E r tr limit content_len pag_total iid p =
     (case chunk_limit limit (initial_limit r) content_len of
        Inl e \<Rightarrow> (Inl e, tr)
      | Inr chunk \<Rightarrow>
          (case it_total_of pag_total (initial_limit r) chunk of
             Inl e \<Rightarrow> (Inl e, tr)
           | Inr it_total \<Rightarrow>
               if parallel r \<and> 1 < it_total
               then (case fetch_chunks_future E r tr pag_total iid chunk of
                       (Inl e, tr1) \<Rightarrow> (Inl e, tr1)
                     | (Inr future, tr1) \<Rightarrow> (parse_futures p future, tr1))
               else fetch_chunks E r tr p pag_total it_total iid chunk))"

subsection \<open>Lines 358 to 421: the filter of a cross-tab report\<close>

text \<open>The properties \<open>metrics\<close> and \<open>attributes\<close>, as pairs of name and id.\<close>

definition metrics_prop ::
  "env \<Rightarrow> report \<Rightarrow> call list \<Rightarrow> (error + (string \<times> string) list) \<times> report \<times> call list" where
  "metrics_prop E r tr =
     (case (if \<not> definition_retrieved r then get_definition E r tr else (Inr (), r, tr)) of
        (Inl e, r1, tr1) \<Rightarrow> (Inl e, r1, tr1)
      | (Inr _, r1, tr1) \<Rightarrow> (Inr (metrics r1), r1, tr1))"

definition attributes_prop ::
  "env \<Rightarrow> report \<Rightarrow> call list \<Rightarrow> (error + (string \<times> string) list) \<times> report \<times> call list" where
  "attributes_prop E r tr =
     (case (if \<not> definition_retrieved r then get_definition E r tr else (Inr (), r, tr)) of
        (Inl e, r1, tr1) \<Rightarrow> (Inl e, r1, tr1)
      | (Inr _, r1, tr1) \<Rightarrow> (Inr (attributes r1), r1, tr1))"

text \<open>\<open>column.startswith(p)\<close> and \<open>sub in s\<close> on strings.\<close>

definition startswith :: "string \<Rightarrow> string \<Rightarrow> bool" where
  "startswith s p = (take (length p) s = p)"

fun contains :: "string \<Rightarrow> string \<Rightarrow> bool" where
  "contains [] sub = (sub = [])"
| "contains (c # cs) sub = (startswith (c # cs) sub \<or> contains cs sub)"

text \<open>
  \<open>attr_dict.setdefault(key, []).append(value)\<close> on a dictionary kept as the list of its
  items in insertion order, and the dictionary built from the attribute elements.
\<close>

definition dict_append ::
  "(string \<times> string list) list \<Rightarrow> string \<Rightarrow> string \<Rightarrow> (string \<times> string list) list" where
  "dict_append d key v =
     (if key \<in> set (map fst d)
      then map (\<lambda>(k, vs). if k = key then (k, vs @ [v]) else (k, vs)) d
      else d @ [(key, [v])])"

definition attr_dict_of :: "string list \<Rightarrow> (string \<times> string list) list" where
  "attr_dict_of attr_els =
     foldl (\<lambda>d attribute. dict_append d (take 32 attribute) (drop 33 attribute)) [] attr_els"

text \<open>\<open>df[indexes]\<close> for a Boolean series: the rows whose entry is true.\<close>

definition select_rows :: "bool list \<Rightarrow> table \<Rightarrow> table" where
  "select_rows indexes df = map fst (filter snd (zip df indexes))"

text \<open>Lines 359 to 370: the columns of the metrics that are not selected are dropped.\<close>

definition drop_metrics ::
  "env \<Rightarrow> cross_tab_selection \<Rightarrow> report \<Rightarrow> call list \<Rightarrow> table
     \<Rightarrow> (error + table) \<times> report \<times> call list" where
  "drop_metrics E sel r tr df =
     (case ctf_metrics sel of
        None \<Rightarrow> (Inr df, r, tr)
      | Some ids \<Rightarrow>
          (case metrics_prop E r tr of
             (Inl e, r1, tr1) \<Rightarrow> (Inl e, r1, tr1)
           | (Inr ms, r1, tr1) \<Rightarrow>
               (let metr_names = map fst (filter (\<lambda>(name, mid). mid \<notin> set ids) ms)
                in case frame_drop E metr_names df of
                     Inl e \<Rightarrow> (Inl e, r1, tr1)
                   | Inr df1 \<Rightarrow> (Inr df1, r1\<lparr>dataframe := Some df1\<rparr>, tr1))))"

text \<open>Lines 382 to 390: the loop over the attributes of \<open>attr_dict\<close>.\<close>

fun attr_indexes ::
  "env \<Rightarrow> table \<Rightarrow> (string \<times> string list) list \<Rightarrow> bool list \<Rightarrow> report \<Rightarrow> call list
     \<Rightarrow> (error + bool list) \<times> report \<times> call list" where
  "attr_indexes E df [] indexes r tr = (Inr indexes, r, tr)"
| "attr_indexes E df ((attribute, elems) # attr_dict) indexes r tr =
     (case attributes_prop E r tr of
        (Inl e, r1, tr1) \<Rightarrow> (Inl e, r1, tr1)
      | (Inr attrs, r1, tr1) \<Rightarrow>
          (case filter (\<lambda>(name, aid). contains attribute aid) attrs of
             [] \<Rightarrow> (Inl IndexError, r1, tr1)
           | (attr_name, aid) # _ \<Rightarrow>
               (case frame_isin E attr_name elems df of
                  Inl e \<Rightarrow> (Inl e, r1, tr1)
                | Inr isin \<Rightarrow>
                    attr_indexes E df attr_dict (map2 (\<or>) indexes isin) r1 tr1)))"

text \<open>Lines 372 to 392: the rows with one of the selected attribute elements are kept.\<close>

definition select_attr_elements ::
  "env \<Rightarrow> cross_tab_selection \<Rightarrow> report \<Rightarrow> call list \<Rightarrow> table
     \<Rightarrow> (error + table) \<times> report \<times> call list" where
  "select_attr_elements E sel r tr df =
     (case ctf_attr_elements sel of
        None \<Rightarrow> (Inr df, r, tr)
      | Some attr_els \<Rightarrow>
          (case attr_indexes E df (attr_dict_of attr_els) (replicate (length df) False) r tr of
             (Inl e, r1, tr1) \<Rightarrow> (Inl e, r1, tr1)
           | (Inr indexes, r1, tr1) \<Rightarrow>
               (let df1 = select_rows indexes df
                in (Inr df1, r1\<lparr>dataframe := Some df1\<rparr>, tr1))))"

text \<open>
  Lines 394 to 420: the columns of the attributes that are not selected, or of their
  forms, are dropped.
\<close>

fun attribute_forms :: "string list \<Rightarrow> string list \<Rightarrow> string list \<times> string list" where
  "attribute_forms cols [] = ([], [])"
| "attribute_forms cols (attr # attr_names) =
     (let forms = filter (\<lambda>column. startswith column (attr @ ''@'')) cols;
          (to_be_removed, to_be_added) = attribute_forms cols attr_names
      in if forms \<noteq> [] then (attr # to_be_removed, forms @ to_be_added)
         else (to_be_removed, to_be_added))"

definition drop_attributes ::
  "env \<Rightarrow> cross_tab_selection \<Rightarrow> report \<Rightarrow> call list \<Rightarrow> table
     \<Rightarrow> (error + table) \<times> report \<times> call list" where
  "drop_attributes E sel r tr df =
     (case ctf_attributes sel of
        None \<Rightarrow> (Inr df, r, tr)
      | Some ids \<Rightarrow>
          (case attributes_prop E r tr of
             (Inl e, r1, tr1) \<Rightarrow> (Inl e, r1, tr1)
           | (Inr attrs, r1, tr1) \<Rightarrow>
               (let attr_names = map fst (filter (\<lambda>(name, aid). aid \<notin> set ids) attrs);
                    (to_be_removed, to_be_added) = attribute_forms (frame_columns E df) attr_names;
                    names = foldl (\<lambda>ns elem. remove1 elem ns) attr_names to_be_removed @ to_be_added
                in case frame_drop E names df of
                     Inl e \<Rightarrow> (Inl e, r1, tr1)
                   | Inr df1 \<Rightarrow> (Inr df1, r1\<lparr>dataframe := Some df1\<rparr>, tr1))))"

definition cross_tab_post ::
  "env \<Rightarrow> cross_tab_selection \<Rightarrow> report \<Rightarrow> call list \<Rightarrow> table
     \<Rightarrow> (error + table) \<times> report \<times> call list" where
  "cross_tab_post E sel r tr df =
     (case drop_metrics E sel r tr df of
        (Inl e, r1, tr1) \<Rightarrow> (Inl e, r1, tr1)
      | (Inr df1, r1, tr1) \<Rightarrow>
          (case select_attr_elements E sel r1 tr1 df1 of
             (Inl e, r2, tr2) \<Rightarrow> (Inl e, r2, tr2)
           | (Inr df2, r2, tr2) \<Rightarrow> drop_attributes E sel r2 tr2 df2))"

subsection \<open>The whole method\<close>

text \<open>
  The result is the value returned or the exception raised, with the report as the call
  leaves it and the requests issued.  The progress bar is not part of the model.
\<close>

definition to_dataframe ::
  "env \<Rightarrow> report \<Rightarrow> call list \<Rightarrow> int option \<Rightarrow> (error + table) \<times> report \<times> call list" where
  "to_dataframe E r tr limit =
     (let r0 = (if truthy limit then r\<lparr>initial_limit := the limit\<rparr> else r)
      in case first_page E r0 tr of
           (Inl e, r1, tr1) \<Rightarrow> (Inl e, r1, tr1)
         | (Inr res, r1, tr1) \<Rightarrow>
             (case response_json res of
                Inl e \<Rightarrow> (Inl e, r1, tr1)
              | Inr j \<Rightarrow>
                  (let r2 = r1\<lparr>instance_id := Some (instanceId j)\<rparr>;
                       p = parse (Parser_new j) j
                   in case (if paging_current j \<noteq> paging_total j
                            then fetch_rest E r2 tr1 limit (content_length res) (paging_total j)
                                   (instanceId j) p
                            else (Inr p, tr1)) of
                        (Inl e, tr2) \<Rightarrow> (Inl e, r2, tr2)
                      | (Inr p1, tr2) \<Rightarrow>
                          (let r3 = r2\<lparr>dataframe := Some (parser_dataframe p1)\<rparr>
                           in case cross_tab_filter r3 of
                                None \<Rightarrow> (Inr (parser_dataframe p1), r3, tr2)
                              | Some sel \<Rightarrow> cross_tab_post E sel r3 tr2 (parser_dataframe p1)))))"

section \<open>Outcomes of a chunk request\<close>

text \<open>
  A chunk request fails when the transport raises, the response is not \<open>ok\<close>, or its
  body is not JSON; the exception that the caller then sees is the transport's own, the
  one raised by \<open>response_handler\<close>, or the one raised by \<open>response.json()\<close>.
\<close>

definition failed :: "error + response \<Rightarrow> bool" where
  "failed out = (case out of Inl e \<Rightarrow> True | Inr res \<Rightarrow> \<not> ok res \<or> isl (response_json res))"

definition failure_of :: "error + response \<Rightarrow> error" where
  "failure_of out =
     (case out of Inl e \<Rightarrow> e | Inr res \<Rightarrow> if \<not> ok res then HTTPError else JSONDecodeError)"

section \<open>A paginated source and mock servers\<close>

text \<open>
  The page that a source holding the rows \<open>src\<close> serves for \<open>offset\<close> and \<open>limit\<close>:
  the rows \<open>src[offset : offset + limit]\<close>, their count, and the total count.
\<close>

definition page_body :: "table \<Rightarrow> string \<Rightarrow> int \<Rightarrow> int \<Rightarrow> page_json" where
  "page_body src iid offset limit =
     \<lparr> instanceId = iid,
       paging_current = int (length (take (nat limit) (drop (nat offset) src))),
       paging_total = int (length src),
       data_rows = take (nat limit) (drop (nat offset) src) \<rparr>"

definition page :: "table \<Rightarrow> string \<Rightarrow> nat \<Rightarrow> int \<Rightarrow> int \<Rightarrow> response" where
  "page src iid bytes offset limit =
     \<lparr> ok = True, content_length = bytes, json_body = Some (page_body src iid offset limit) \<rparr>"

text \<open>
  The body \<open>j\<close> of a response to the request for \<open>offset\<close> and \<open>limit\<close> is a page of
  \<open>src\<close>.
\<close>

definition page_of :: "table \<Rightarrow> int \<Rightarrow> int \<Rightarrow> page_json \<Rightarrow> bool" where
  "page_of src offset limit j \<longleftrightarrow>
     data_rows j = take (nat limit) (drop (nat offset) src)
     \<and> paging_current j = int (length (data_rows j))
     \<and> paging_total j = int (length src)"

text \<open>
  The server answers for the report \<open>rid\<close> from the rows \<open>src\<close>: every response that is
  \<open>ok\<close> and decodes, to a request with a non-negative offset and a positive limit, is
  the page of \<open>src\<close> asked for.  Requests may still fail.
\<close>

definition serves :: "env \<Rightarrow> string \<Rightarrow> table \<Rightarrow> bool" where
  "serves E rid src \<longleftrightarrow>
     (\<forall>body offset limit res j.
        0 \<le> offset \<longrightarrow> 0 < limit \<longrightarrow> http_post_instance E rid body offset limit = Inr res \<longrightarrow> ok res
          \<longrightarrow> response_json res = Inr j \<longrightarrow> page_of src offset limit j)
     \<and> (\<forall>iid offset limit res j.
        0 \<le> offset \<longrightarrow> 0 < limit \<longrightarrow> http_get_instance E rid iid offset limit = Inr res \<longrightarrow> ok res
          \<longrightarrow> response_json res = Inr j \<longrightarrow> page_of src offset limit j)"

text \<open>The requests for chunks among the requests \<open>tr\<close>.\<close>

definition chunk_requests :: "call list \<Rightarrow> call list" where
  "chunk_requests tr =
     filter (\<lambda>c. case c of Get_report_instance iid offset limit \<Rightarrow> True | _ \<Rightarrow> False) tr"

definition empty_filter :: Filter where
  "empty_filter = \<lparr> attr_selected = [], metr_selected = [], attr_elem_selected = [], operator = ''In'' \<rparr>"

definition plain_definition :: report_definition where
  "plain_definition =
     \<lparr> def_name = ''report'', crossTab = False, def_subtotals_visible = None, customGroups = [],
       consolidations = [], grid_rows = [], grid_columns = [], metricsPosition = None \<rparr>"

text \<open>
  A mock server, given its answers to the two report-instance endpoints.  Its data
  frames have no named columns.
\<close>

definition mock_env ::
  "(int \<Rightarrow> int \<Rightarrow> error + response) \<Rightarrow> (string \<Rightarrow> int \<Rightarrow> int \<Rightarrow> error + response) \<Rightarrow> env" where
  "mock_env post get =
     \<lparr> project_selected = True, iserver_version_ge_11_2_0100 = True, config_progress_bar = True,
       http_object_info = (\<lambda>rid. Inr ''report''),
       http_report_definition = (\<lambda>rid. Inr plain_definition),
       http_post_instance = (\<lambda>rid body. post),
       http_get_instance = (\<lambda>rid. get),
       Filter_new = (\<lambda>attrs metrs els. empty_filter),
       Filter_clear = (\<lambda>f attrs metrs els. empty_filter),
       Filter_set_operator = (\<lambda>f s. Inr (f\<lparr>operator := s\<rparr>)),
       Filter_select = (\<lambda>f ids. Inr (f\<lparr>attr_selected := attr_selected f @ ids\<rparr>)),
       Filter_select_attr_el = (\<lambda>f ids. Inr (f\<lparr>attr_elem_selected := attr_elem_selected f @ ids\<rparr>)),
       Filter_request_body = (\<lambda>f. []),
       frame_columns = (\<lambda>df. []),
       frame_drop = (\<lambda>names df. if names = [] then Inr df else Inl KeyError),
       frame_isin = (\<lambda>name elems df. Inl KeyError) \<rparr>"

text \<open>The mock source of the rows \<open>src\<close>; every body has \<open>bytes\<close> bytes.\<close>

definition mock_source :: "table \<Rightarrow> nat \<Rightarrow> env" where
  "mock_source src bytes =
     mock_env (\<lambda>offset limit. Inr (page src ''I1'' bytes offset limit))
              (\<lambda>iid offset limit. Inr (page src iid bytes offset limit))"

definition seven_rows :: table where
  "seven_rows = [[''a''], [''b''], [''c''], [''d''], [''e''], [''f''], [''g'']]"

text \<open>A report as \<open>__init__\<close> leaves it, with no instance yet.\<close>

definition new_report :: report where
  "new_report = init_variables (mock_source seven_rows 100) ''R1'' ''report'' None True True"

text \<open>
  The mock source of the seven rows, for a report whose definition is a cross-tab, and
  the report after reading the property \<open>attributes\<close> (which retrieves the definition)
  and calling \<open>apply_filters(attr_elements=[])\<close>.
\<close>

definition mock_cross_tab :: env where
  "mock_cross_tab =
     (mock_source seven_rows 100)
       \<lparr>http_report_definition := (\<lambda>rid. Inr (plain_definition\<lparr>crossTab := True\<rparr>))\<rparr>"

definition cross_tab_report :: report where
  "cross_tab_report =
     fst (snd (apply_filters mock_cross_tab
                 (fst (snd (attributes_prop mock_cross_tab new_report []))) []
                 None None (Some []) ''In''))"

text \<open>A mock source that fails on the chunk at one offset (with a response that is not \<open>ok\<close>).\<close>

definition mock_failing :: "table \<Rightarrow> nat \<Rightarrow> int \<Rightarrow> env" where
  "mock_failing src bytes bad =
     mock_env (\<lambda>offset limit. Inr (page src ''I1'' bytes offset limit))
              (\<lambda>iid offset limit.
                 if offset = bad then Inr ((page src iid bytes offset limit)\<lparr>ok := False\<rparr>)
                 else Inr (page src iid bytes offset limit))"

text \<open>A response with the total count of its body replaced.\<close>

definition with_total :: "int \<Rightarrow> response \<Rightarrow> response" where
  "with_total n res = res\<lparr>json_body := map_option (\<lambda>j. j\<lparr>paging_total := n\<rparr>) (json_body res)\<rparr>"

text \<open>
  A mock source of 100 equal rows that reports \<open>totalCount = 100\<close> on the first page and
  \<open>totalCount = 150\<close> on every later page.
\<close>

definition mock_drifting :: env where
  "mock_drifting =
     mock_env (\<lambda>offset limit. Inr (page (replicate 100 [''x'']) ''I1'' 100 offset limit))
              (\<lambda>iid offset limit.
                 Inr (with_total 150 (page (replicate 100 [''x'']) iid 100 offset limit)))"

text \<open>A mock server without rows whose pages report \<open>totalCount = - 1\<close>.\<close>

definition mock_negative_total :: env where
  "mock_negative_total =
     mock_env (\<lambda>offset limit. Inr (with_total (- 1) (page [] ''I1'' 100 offset limit)))
              (\<lambda>iid offset limit. Inr (with_total (- 1) (page [] iid 100 offset limit)))"

text \<open>A mock server that answers the request for the first page with an empty body.\<close>

definition mock_empty_body :: env where
  "mock_empty_body =
     mock_env (\<lambda>offset limit. Inr \<lparr> ok = True, content_length = 0, json_body = None \<rparr>)
              (\<lambda>iid offset limit. Inr \<lparr> ok = True, content_length = 0, json_body = None \<rparr>)"

text \<open>
  A mock server of two rows whose first page holds both rows whatever the limit, and
  reports \<open>current = 1\<close> and \<open>total = 2\<close>.
\<close>

definition two_rows :: table where
  "two_rows = [[''a''], [''b'']]"

definition mock_miscount :: env where
  "mock_miscount =
     mock_env (\<lambda>offset limit.
                 Inr \<lparr> ok = True, content_length = 100,
                       json_body = Some \<lparr> instanceId = ''I1'', paging_current = 1, paging_total = 2,
                                          data_rows = two_rows \<rparr> \<rparr>)
              (\<lambda>iid offset limit. Inr (page two_rows iid 100 offset limit))"

text \<open>The server of \<open>E\<close>, with the total count of every page fetched by \<open>GET\<close> replaced.\<close>

definition with_get_total :: "(int \<Rightarrow> int \<Rightarrow> int) \<Rightarrow> env \<Rightarrow> env" where
  "with_get_total g E =
     E\<lparr>http_get_instance :=
         (\<lambda>rid iid offset limit.
            case http_get_instance E rid iid offset limit of
              Inl e \<Rightarrow> Inl e
            | Inr res \<Rightarrow>
                Inr (res\<lparr>json_body :=
                           map_option (\<lambda>j. j\<lparr>paging_total := g offset (paging_total j)\<rparr>)
                             (json_body res)\<rparr>))\<rparr>"

section \<open>True division is exact below \<open>2^53\<close>\<close>

lemma pow2_powi: "pow2 e = 2 powi e"
  by (simp add: pow2_def power_int_def field_simps)

lemma pow2_pos: "0 < pow2 e"
  by (simp add: pow2_powi)

lemma pow2_add: "pow2 (i + j) = pow2 i * pow2 j"
  by (simp add: pow2_powi power_int_add)

lemma pow2_mono: "i \<le> j \<Longrightarrow> pow2 i \<le> pow2 j"
  by (simp add: pow2_powi power_int_increasing)

lemma pow2_nat: "0 \<le> e \<Longrightarrow> pow2 e = of_int (2 ^ nat e)"
  by (simp add: pow2_def)

lemma pow2_strict_mono: "i < j \<Longrightarrow> pow2 i < pow2 j"
  by (simp add: pow2_powi power_int_strict_increasing)

lemma round_half_even_bounds:
  "\<lfloor>x\<rfloor> \<le> round_half_even x" "round_half_even x \<le> \<lfloor>x\<rfloor> + 1"
  "of_int (round_half_even x) - x \<le> 1 / 2"
  unfolding round_half_even_def Let_def by (auto; linarith)+

lemma ilog2_bounds:
  assumes "0 < a" "0 < b"
  shows "pow2 (ilog2 a b) \<le> of_int a / of_int b" "of_int a / of_int b < pow2 (ilog2 a b + 1)"
proof -
  define la where "la = bitlen a"
  define lb where "lb = bitlen b"
  have la: "pow2 (la - 1) \<le> of_int a" "(of_int a :: rat) < pow2 la"
  proof -
    have h: "2 ^ nat (la - 1) \<le> a" "a < 2 ^ nat la"
      using bitlen_bounds [OF assms(1)] by (simp_all add: la_def)
    have p: "1 \<le> la" using assms(1) by (simp add: la_def bitlen_alt_def) 
    show "pow2 (la - 1) \<le> of_int a" using h(1) p
      by (simp add: pow2_nat)
    show "(of_int a :: rat) < pow2 la" using h(2) p
      by (simp add: pow2_nat)
  qed
  have lb: "pow2 (lb - 1) \<le> of_int b" "(of_int b :: rat) < pow2 lb"
  proof -
    have h: "2 ^ nat (lb - 1) \<le> b" "b < 2 ^ nat lb"
      using bitlen_bounds [OF assms(2)] by (simp_all add: lb_def)
    have p: "1 \<le> lb" using assms(2) by (simp add: lb_def bitlen_alt_def) 
    show "pow2 (lb - 1) \<le> of_int b" using h(1) p
      by (simp add: pow2_nat)
    show "(of_int b :: rat) < pow2 lb" using h(2) p
      by (simp add: pow2_nat)
  qed
  have bpos: "(0::rat) < of_int b" using assms(2) by simp
  show "pow2 (ilog2 a b) \<le> of_int a / of_int b"
  proof (cases "of_int b * pow2 (la - lb) \<le> (of_int a :: rat)")
    case True
    then have "ilog2 a b = la - lb" by (simp add: ilog2_def la_def lb_def)
    then show ?thesis using True bpos by (simp add: pos_le_divide_eq mult.commute)
  next
    case False
    then have e: "ilog2 a b = la - lb - 1" by (simp add: ilog2_def la_def lb_def)
    have "pow2 (la - lb - 1) * of_int b \<le> pow2 (la - lb - 1) * pow2 lb"
      using lb(2) pow2_pos [of "la - lb - 1"] by simp
    also have "\<dots> = pow2 (la - 1)" by (simp add: pow2_add [symmetric])
    also have "\<dots> \<le> of_int a" by (rule la(1))
    finally show ?thesis using bpos by (simp add: e pos_le_divide_eq)
  qed
  show "of_int a / of_int b < pow2 (ilog2 a b + 1)"
  proof (cases "of_int b * pow2 (la - lb) \<le> (of_int a :: rat)")
    case True
    then have e: "ilog2 a b = la - lb" by (simp add: ilog2_def la_def lb_def)
    have "of_int a < pow2 la" by (rule la(2))
    also have "\<dots> = pow2 (la - lb + 1) * pow2 (lb - 1)" by (simp add: pow2_add [symmetric])
    also have "\<dots> \<le> pow2 (la - lb + 1) * of_int b"
      using lb(1) pow2_pos [of "la - lb + 1"] by simp
    finally show ?thesis using bpos by (simp add: e pos_divide_less_eq)
  next
    case False
    then have e: "ilog2 a b = la - lb - 1" by (simp add: ilog2_def la_def lb_def)
    show ?thesis using False bpos by (simp add: e pos_divide_less_eq mult.commute)
  qed
qed

lemma ilog2_unique:
  assumes "0 < a" "0 < b"
    and "pow2 e \<le> of_int a / of_int b" "of_int a / of_int b < pow2 (e + 1)"
  shows "ilog2 a b = e"
proof (rule ccontr)
  assume ne: "ilog2 a b \<noteq> e"
  note bd = ilog2_bounds [OF assms(1,2)]
  show False
  proof (cases "ilog2 a b < e")
    case True
    then have "pow2 (ilog2 a b + 1) \<le> pow2 e" by (intro pow2_mono) simp
    with bd(2) assms(3) show False by simp
  next
    case False
    with ne have "pow2 (e + 1) \<le> pow2 (ilog2 a b)" by (intro pow2_mono) simp
    with bd(1) assms(4) show False by simp
  qed
qed

lemma float_round_pos_exact:
  assumes a: "0 < a" "a < 2 ^ 53" and b: "0 < b"
  shows "\<exists>y. float_round_pos a b = Inr y \<and> 0 \<le> y \<and> \<lfloor>y\<rfloor> = a div b"
proof -
  define x :: rat where "x = of_int a / of_int b"
  define e0 where "e0 = ilog2 a b"
  define e where "e = max e0 (- 1022)"
  define u where "u = pow2 (e - 52)"
  define m where "m = x / u"
  define n where "n = round_half_even m"
  define y where "y = of_int n * u"
  define q where "q = a div b"
  have bpos: "(0::rat) < of_int b" using b by simp
  have xpos: "0 < x" using a b by (simp add: x_def)
  have upos: "0 < u" by (simp add: u_def pow2_pos)
  have x_le_a: "x \<le> of_int a"
  proof -
    have "(of_int a :: rat) \<le> of_int a * of_int b" using a b
      by (metis mult.right_neutral mult_left_mono of_int_0_le_iff of_int_1_le_iff less_imp_le zless_imp_add1_zle zero_less_one add.left_neutral)
    then show ?thesis using bpos by (simp add: x_def pos_divide_le_eq)
  qed
  have a53: "(of_int a :: rat) < pow2 53"
    using a(2) by (simp add: pow2_def)
  have e0_bounds: "pow2 e0 \<le> x" "x < pow2 (e0 + 1)"
    using ilog2_bounds [OF a(1) b] by (simp_all add: x_def e0_def)
  have e0_le: "e0 \<le> 52"
  proof (rule ccontr)
    assume "\<not> e0 \<le> 52"
    then have "pow2 53 \<le> pow2 e0" by (intro pow2_mono) simp
    with e0_bounds(1) x_le_a a53 show False by simp
  qed
  then have e_le: "e \<le> 52" by (simp add: e_def)
  define K :: int where "K = 2 ^ nat (52 - e)"
  have Ku: "of_int K * u = 1"
  proof -
    have "of_int K = pow2 (52 - e)" using e_le by (simp add: K_def pow2_nat)
    then have "of_int K * u = pow2 (52 - e + (e - 52))" by (simp only: u_def pow2_add)
    then show ?thesis by (simp add: pow2_def)
  qed
  have Kpos: "0 < K" by (simp add: K_def)
  have m_eq: "m = x * of_int K"
    using Ku upos by (simp add: m_def field_simps)
  have y_eq: "y = of_int n / of_int K"
    using Ku Kpos by (simp add: y_def field_simps)
  have dm: "a = q * b + a mod b" by (simp add: q_def)
  have md: "0 \<le> a mod b" "a mod b < b" using b by simp_all
  have q_le: "of_int q \<le> x"
  proof -
    have "q * b \<le> a" using dm md(1) by linarith
    then have "(of_int (q * b) :: rat) \<le> of_int a" by (simp only: of_int_le_iff)
    then show ?thesis using bpos by (simp add: x_def pos_le_divide_eq)
  qed
  have x_le: "x + 1 / of_int b \<le> of_int q + 1"
  proof -
    have "a + 1 \<le> q * b + b" using dm md(2) by linarith
    then have "(of_int (a + 1) :: rat) \<le> of_int (q * b + b)" by (simp only: of_int_le_iff)
    then have "(of_int a + 1 :: rat) \<le> (of_int q + 1) * of_int b" by (simp add: algebra_simps)
    then have "(of_int a + 1) / of_int b \<le> (of_int q + 1 :: rat)"
      using bpos by (simp add: pos_divide_le_eq)
    then show ?thesis by (simp add: x_def add_divide_distrib)
  qed
  have n_bounds: "\<lfloor>m\<rfloor> \<le> n" "n \<le> \<lfloor>m\<rfloor> + 1" "of_int n - m \<le> 1 / 2"
    using round_half_even_bounds [of m] by (simp_all add: n_def)
  have lower: "of_int q \<le> y"
  proof -
    have "of_int (q * K) \<le> m" using q_le Kpos by (simp add: m_eq)
    then have "q * K \<le> \<lfloor>m\<rfloor>" by (simp add: le_floor_iff)
    with n_bounds(1) have "q * K \<le> n" by simp
    then have "(of_int (q * K) :: rat) \<le> of_int n" by (simp only: of_int_le_iff)
    then show ?thesis using Kpos by (simp add: y_eq pos_le_divide_eq)
  qed
  have y_x: "y - x \<le> u / 2"
  proof -
    have "(of_int n - m) * u \<le> (1 / 2) * u"
      using n_bounds(3) upos by (intro mult_right_mono) simp_all
    moreover have "m * u = x" using upos by (simp add: m_def)
    ultimately show ?thesis by (simp add: y_def algebra_simps)
  qed
  have upper: "y < of_int q + 1"
  proof (cases "- 1022 \<le> e0")
    case True
    then have "e = e0" by (simp add: e_def)
    then have "u = pow2 e0 * pow2 (- 52)" by (simp add: u_def pow2_add [symmetric])
    then have "u \<le> x * pow2 (- 52)" using e0_bounds(1) pow2_pos [of "- 52"] by simp
    then have "of_int b * u \<le> of_int b * (x * pow2 (- 52))"
      using bpos by (intro mult_left_mono) simp_all
    also have "\<dots> = of_int a * pow2 (- 52)" using bpos by (simp add: x_def)
    also have "\<dots> < pow2 53 * pow2 (- 52)" using a53 pow2_pos [of "- 52"] by simp
    also have "\<dots> = 2" by (simp add: pow2_add [symmetric]) (simp add: pow2_def)
    finally have "of_int b * u < 2" .
    then have "u / 2 < 1 / of_int b" using bpos by (simp add: field_simps)
    with y_x x_le show ?thesis by linarith
  next
    case False
    then have e: "e = - 1022" by (simp add: e_def)
    have "x < pow2 (- 1022)"
      using e0_bounds(2) pow2_mono [of "e0 + 1" "- 1022"] False by simp
    then have "m < pow2 (- 1022) / u" using upos by (simp add: m_def divide_strict_right_mono)
    also have "\<dots> = pow2 52"
    proof -
      have "pow2 52 * u = pow2 (- 1022)" by (simp add: u_def e pow2_add [symmetric])
      then show ?thesis using upos by (simp add: field_simps)
    qed
    finally have "m < of_int (2 ^ 52)" by (simp add: pow2_def)
    then have "\<lfloor>m\<rfloor> < 2 ^ 52" by (simp only: floor_less_iff)
    with n_bounds(2) have "n \<le> 2 ^ 52" by linarith
    then have "(of_int n :: rat) \<le> of_int (2 ^ 52)" by (simp only: of_int_le_iff)
    then have "of_int n * u \<le> of_int (2 ^ 52) * u" using upos by (intro mult_right_mono) simp_all
    also have "\<dots> = pow2 52 * u" by (simp add: pow2_def)
    also have "\<dots> = pow2 (- 1022)" by (simp add: u_def e pow2_add [symmetric])
    also have "\<dots> < pow2 0" by (intro pow2_strict_mono) simp
    finally have "y < 1" by (simp add: y_def pow2_def)
    moreover have "0 \<le> q" using a b by (simp add: q_def pos_imp_zdiv_nonneg_iff)
    ultimately show ?thesis by (simp add: add_strict_increasing2)
  qed
  have q_nonneg: "0 \<le> q" using a b by (simp add: q_def pos_imp_zdiv_nonneg_iff)
  have "q < 2 ^ 53"
  proof -
    have "(of_int q :: rat) \<le> of_int a" using q_le x_le_a by (rule order_trans)
    then have "q \<le> a" by (simp only: of_int_le_iff)
    with a(2) show ?thesis by simp
  qed
  then have "q + 1 \<le> 2 ^ 53" by simp
  then have "(of_int (q + 1) :: rat) \<le> of_int (2 ^ 53)" by (simp only: of_int_le_iff)
  then have "(of_int q + 1 :: rat) \<le> pow2 53" by (simp add: pow2_def)
  also have "\<dots> \<le> pow2 1024" by (intro pow2_mono) simp
  finally have no_ovf: "\<not> pow2 1024 \<le> y" using upper by simp
  have fr: "float_round_pos a b = Inr y"
    using no_ovf
    by (simp add: float_round_pos_def Let_def y_def n_def m_def u_def e_def e0_def x_def)
  have "\<lfloor>y\<rfloor> = q" using lower upper by (simp add: floor_unique)
  moreover have "0 \<le> y" using lower q_nonneg by (meson of_int_0_le_iff order_trans)
  ultimately show ?thesis using fr by (simp add: q_def)
qed

lemma int_truediv_trunc:
  assumes "\<bar>a\<bar> < 2 ^ 53" "b \<noteq> 0"
  shows "int_truediv a b =
           Inr (if (a < 0) = (b < 0) then \<bar>a\<bar> div \<bar>b\<bar> else - (\<bar>a\<bar> div \<bar>b\<bar>))"
proof (cases "a = 0")
  case True
  then show ?thesis using assms(2) by (simp add: int_truediv_def truediv_def int_of_float_def)
next
  case False
  then have "0 < \<bar>a\<bar>" "0 < \<bar>b\<bar>" using assms(2) by simp_all
  from float_round_pos_exact [OF this(1) assms(1) this(2)]
  obtain y where y: "float_round_pos \<bar>a\<bar> \<bar>b\<bar> = Inr y" "0 \<le> y" "\<lfloor>y\<rfloor> = \<bar>a\<bar> div \<bar>b\<bar>"
    by blast
  have neg: "int_of_float (- y) = - \<lfloor>y\<rfloor>"
    using y(2) by (cases "y = 0") (simp_all add: int_of_float_def ceiling_minus)
  have pos: "int_of_float y = \<lfloor>y\<rfloor>" using y(2) by (simp add: int_of_float_def)
  show ?thesis using False assms(2) y(1) y(3) neg pos
    by (simp add: int_truediv_def truediv_def)
qed

lemma int_truediv_exact:
  assumes "0 \<le> a" "a < 2 ^ 53" "0 < b"
  shows "int_truediv a b = Inr (a div b)"
  using int_truediv_trunc [of a b] assms by simp

lemma int_truediv_zero: "int_truediv a 0 = Inl ZeroDivisionError"
  by (simp add: int_truediv_def truediv_def)

section \<open>Evaluating the mock servers\<close>

lemmas mock_defs = mock_source_def mock_env_def page_def page_body_def new_report_def
  init_variables_def seven_rows_def empty_filter_def plain_definition_def
lemmas first_page_defs = first_page_def initialize_report_def filter_prop_def get_definition_def
  get_chunk_def report_instance_def report_instance_id_def checked_def response_handler_def
  exception_handler_def

lemma page_fields [simp]:
  "ok (page src iid bytes offset limit)"
  "content_length (page src iid bytes offset limit) = bytes"
  "json_body (page src iid bytes offset limit) = Some (page_body src iid offset limit)"
  by (simp_all add: page_def)

lemma response_json_page [simp]:
  "0 < bytes \<Longrightarrow> response_json (page src iid bytes offset limit) = Inr (page_body src iid offset limit)"
  by (simp add: response_json_def)

lemma select_rows_none [simp]:
  "select_rows (replicate n False) df = []"
  by (auto simp: select_rows_def filter_empty_conv dest: set_zip_rightD)

section \<open>The requests for chunks\<close>

lemma chunk_requests_append [simp]:
  "chunk_requests (xs @ ys) = chunk_requests xs @ chunk_requests ys"
  by (simp add: chunk_requests_def)

lemma chunk_requests_Get [simp]:
  "chunk_requests (map (\<lambda>offset. Get_report_instance iid offset limit) offsets)
     = map (\<lambda>offset. Get_report_instance iid offset limit) offsets"
  by (induction offsets) (simp_all add: chunk_requests_def)

lemma chunk_requests_simps [simp]:
  "chunk_requests [] = []"
  "chunk_requests (Get_report_instance iid offset limit # tr)
     = Get_report_instance iid offset limit # chunk_requests tr"
  "chunk_requests (Get_report_definition rid # tr) = chunk_requests tr"
  "chunk_requests (Post_report_instance offset limit # tr) = chunk_requests tr"
  "chunk_requests (Get_object_info rid # tr) = chunk_requests tr"
  by (simp_all add: chunk_requests_def)

lemma get_definition_trace:
  "snd (snd (get_definition E r tr)) = tr @ [Get_report_definition (report_id r)]"
  by (simp add: get_definition_def Let_def split: sum.splits option.splits prod.splits)

lemma metrics_prop_chunk_requests:
  "chunk_requests (snd (snd (metrics_prop E r tr))) = chunk_requests tr"
proof (cases "definition_retrieved r")
  case True
  then show ?thesis by (simp add: metrics_prop_def)
next
  case False
  obtain x r1 tr1 where g: "get_definition E r tr = (x, r1, tr1)" by (metis prod_cases3)
  then have "tr1 = tr @ [Get_report_definition (report_id r)]"
    using get_definition_trace [of E r tr] by simp
  then show ?thesis using False g by (cases x) (simp_all add: metrics_prop_def)
qed

lemma attributes_prop_chunk_requests:
  "chunk_requests (snd (snd (attributes_prop E r tr))) = chunk_requests tr"
proof (cases "definition_retrieved r")
  case True
  then show ?thesis by (simp add: attributes_prop_def)
next
  case False
  obtain x r1 tr1 where g: "get_definition E r tr = (x, r1, tr1)" by (metis prod_cases3)
  then have "tr1 = tr @ [Get_report_definition (report_id r)]"
    using get_definition_trace [of E r tr] by simp
  then show ?thesis using False g by (cases x) (simp_all add: attributes_prop_def)
qed

lemma attr_indexes_chunk_requests:
  "chunk_requests (snd (snd (attr_indexes E df attr_dict indexes r tr))) = chunk_requests tr"
proof (induction attr_dict arbitrary: indexes r tr)
  case Nil
  show ?case by simp
next
  case (Cons a attr_dict)
  obtain attribute elems where a: "a = (attribute, elems)" by (cases a)
  obtain x r1 tr1 where p: "attributes_prop E r tr = (x, r1, tr1)" by (metis prod_cases3)
  have t: "chunk_requests tr1 = chunk_requests tr"
    using attributes_prop_chunk_requests [of E r tr] p by simp
  show ?case
    using t Cons.IH
    by (simp add: a p split: sum.splits list.splits prod.splits)
qed

lemma drop_metrics_chunk_requests:
  "chunk_requests (snd (snd (drop_metrics E sel r tr df))) = chunk_requests tr"
proof (cases "ctf_metrics sel")
  case None
  then show ?thesis by (simp add: drop_metrics_def)
next
  case (Some ids)
  obtain x r1 tr1 where p: "metrics_prop E r tr = (x, r1, tr1)" by (metis prod_cases3)
  have t: "chunk_requests tr1 = chunk_requests tr"
    using metrics_prop_chunk_requests [of E r tr] p by simp
  show ?thesis
    using t by (simp add: drop_metrics_def Some p Let_def split: sum.splits)
qed

lemma select_attr_elements_chunk_requests:
  "chunk_requests (snd (snd (select_attr_elements E sel r tr df))) = chunk_requests tr"
proof (cases "ctf_attr_elements sel")
  case None
  then show ?thesis by (simp add: select_attr_elements_def)
next
  case (Some attr_els)
  obtain x r1 tr1 where
    p: "attr_indexes E df (attr_dict_of attr_els) (replicate (length df) False) r tr = (x, r1, tr1)"
    by (metis prod_cases3)
  have t: "chunk_requests tr1 = chunk_requests tr"
    using attr_indexes_chunk_requests
            [of E df "attr_dict_of attr_els" "replicate (length df) False" r tr] p
    by simp
  show ?thesis
    using t by (simp add: select_attr_elements_def Some p Let_def split: sum.splits)
qed

lemma drop_attributes_chunk_requests:
  "chunk_requests (snd (snd (drop_attributes E sel r tr df))) = chunk_requests tr"
proof (cases "ctf_attributes sel")
  case None
  then show ?thesis by (simp add: drop_attributes_def)
next
  case (Some ids)
  obtain x r1 tr1 where p: "attributes_prop E r tr = (x, r1, tr1)" by (metis prod_cases3)
  have t: "chunk_requests tr1 = chunk_requests tr"
    using attributes_prop_chunk_requests [of E r tr] p by simp
  show ?thesis
    using t by (simp add: drop_attributes_def Some p Let_def split: sum.splits prod.splits)
qed

lemma cross_tab_post_chunk_requests:
  "chunk_requests (snd (snd (cross_tab_post E sel r tr df))) = chunk_requests tr"
proof -
  obtain x1 r1 tr1 where m: "drop_metrics E sel r tr df = (x1, r1, tr1)" by (metis prod_cases3)
  have t1: "chunk_requests tr1 = chunk_requests tr"
    using drop_metrics_chunk_requests [of E sel r tr df] m by simp
  show ?thesis
  proof (cases x1)
    case (Inl e)
    then show ?thesis using t1 by (simp add: cross_tab_post_def m)
  next
    case (Inr df1)
    obtain x2 r2 tr2 where s: "select_attr_elements E sel r1 tr1 df1 = (x2, r2, tr2)"
      by (metis prod_cases3)
    have t2: "chunk_requests tr2 = chunk_requests tr1"
      using select_attr_elements_chunk_requests [of E sel r1 tr1 df1] s by simp
    show ?thesis
    proof (cases x2)
      case (Inl e)
      then show ?thesis using t1 t2 by (simp add: cross_tab_post_def m Inr s)
    next
      case (Inr df2)
      show ?thesis
        using t1 t2 drop_attributes_chunk_requests [of E sel r2 tr2 df2]
        by (simp add: cross_tab_post_def m \<open>x1 = Inr df1\<close> s Inr)
    qed
  qed
qed

section \<open>The constructor and the filters\<close>

text \<open>
  C9.  Constructing a \<open>Report\<close> with the empty string as its id raises \<open>ValueError\<close>, and
  no request has been sent by then: the list of requests is the one the call started with.
\<close>

theorem Report_init_empty_id:
  "Report_init E tr [] iid par pbar = (Inl ValueError, tr)"
  by (simp add: Report_init_def)

text \<open>
  C10.  On a report that is not a cross-tab, \<open>apply_filters\<close> with \<open>attributes\<close>,
  \<open>metrics\<close> and \<open>attr_elements\<close> all \<open>None\<close> returns normally and leaves the whole
  report as it was (the filter selections and \<open>instance_id\<close> among it), and sends no request.
\<close>

theorem apply_filters_nothing_requested:
  "\<not> cross_tab r \<Longrightarrow> apply_filters E r tr None None None oper = (Inr (), r, tr)"
  by (simp add: apply_filters_def)

theorem apply_filters_nothing_requested_witness:
  "\<not> cross_tab new_report
   \<and> apply_filters (mock_source seven_rows 100) new_report [] None None None ''In''
       = (Inr (), new_report, [])"
  using apply_filters_nothing_requested [of new_report "mock_source seven_rows 100" "[]" "''In''"]
  by (simp add: new_report_def init_variables_def)

section \<open>\<open>to_dataframe\<close>: unfolding the method after the first page\<close>

lemma to_dataframe_single:
  assumes "first_page E (if truthy limit then r\<lparr>initial_limit := the limit\<rparr> else r) tr
             = (Inr res, r1, tr1)"
    and "response_json res = Inr j"
    and "paging_current j = paging_total j"
  shows "to_dataframe E r tr limit =
           (case cross_tab_filter r1 of
              None \<Rightarrow>
                (Inr (data_rows j),
                 r1\<lparr>instance_id := Some (instanceId j), dataframe := Some (data_rows j)\<rparr>, tr1)
            | Some sel \<Rightarrow>
                cross_tab_post E sel
                  (r1\<lparr>instance_id := Some (instanceId j), dataframe := Some (data_rows j)\<rparr>) tr1
                  (data_rows j))"
  using assms
  by (simp add: to_dataframe_def Let_def parse_def Parser_new_def parser_dataframe_def
           split: option.splits)

lemma to_dataframe_unfold:
  assumes "first_page E (if truthy limit then r\<lparr>initial_limit := the limit\<rparr> else r) tr
             = (Inr res, r1, tr1)"
    and "response_json res = Inr j"
    and "paging_current j \<noteq> paging_total j"
  shows "to_dataframe E r tr limit =
           (case fetch_rest E (r1\<lparr>instance_id := Some (instanceId j)\<rparr>) tr1 limit
                   (content_length res) (paging_total j) (instanceId j) (data_rows j) of
              (Inl e, tr2) \<Rightarrow> (Inl e, r1\<lparr>instance_id := Some (instanceId j)\<rparr>, tr2)
            | (Inr p1, tr2) \<Rightarrow>
                (case cross_tab_filter r1 of
                   None \<Rightarrow> (Inr p1, r1\<lparr>instance_id := Some (instanceId j), dataframe := Some p1\<rparr>, tr2)
                 | Some sel \<Rightarrow>
                     cross_tab_post E sel
                       (r1\<lparr>instance_id := Some (instanceId j), dataframe := Some p1\<rparr>) tr2 p1))"
  using assms
  by (simp add: to_dataframe_def Let_def parse_def Parser_new_def parser_dataframe_def
           split: prod.splits option.splits sum.splits)

lemma cross_tab_post_no_elements:
  "cross_tab_post E \<lparr>ctf_attributes = None, ctf_metrics = None, ctf_attr_elements = Some []\<rparr>
     r tr df = (Inr [], r\<lparr>dataframe := Some []\<rparr>, tr)"
  by (simp add: cross_tab_post_def drop_metrics_def select_attr_elements_def drop_attributes_def
        attr_dict_of_def Let_def)

lemma cross_tab_report_eq:
  "cross_tab_report
     = new_report\<lparr>report_name := ''report'', cross_tab := True, attributes := [],
                  metrics := [], definition_retrieved := True,
                  cross_tab_filter :=
                    Some \<lparr>ctf_attributes = None, ctf_metrics = None,
                          ctf_attr_elements = Some []\<rparr>\<rparr>"
  by (simp add: cross_tab_report_def attributes_prop_def get_definition_def apply_filters_def
        mock_cross_tab_def mock_source_def mock_env_def new_report_def init_variables_def
        plain_definition_def Let_def)

section \<open>\<open>to_dataframe\<close>: a first page that holds all rows\<close>

text \<open>
  C7 (as amended).  The test of line 314 compares \<open>paging['current']\<close> with
  \<open>paging['total']\<close>; the rows of the page are not counted.  When the first page
  reports \<open>current = total\<close>, \<open>to_dataframe\<close> issues no request for a chunk beyond those
  made before, and, no cross-tab filter being set, returns the rows of the first page,
  which it also stores in \<open>_dataframe\<close>, with no request at all after the first page.
\<close>

theorem to_dataframe_single_page:
  assumes "first_page E (if truthy limit then r\<lparr>initial_limit := the limit\<rparr> else r) tr
             = (Inr res, r1, tr1)"
    and "response_json res = Inr j"
    and "paging_current j = paging_total j"
  shows "chunk_requests (snd (snd (to_dataframe E r tr limit))) = chunk_requests tr1
         \<and> (cross_tab_filter r1 = None \<longrightarrow>
              to_dataframe E r tr limit
                = (Inr (data_rows j),
                   r1\<lparr>instance_id := Some (instanceId j), dataframe := Some (data_rows j)\<rparr>,
                   tr1))"
proof (cases "cross_tab_filter r1")
  case None
  then show ?thesis by (simp add: to_dataframe_single [OF assms])
next
  case (Some sel)
  then show ?thesis
    by (simp add: to_dataframe_single [OF assms] cross_tab_post_chunk_requests)
qed

theorem to_dataframe_single_page_witness:
  "to_dataframe (mock_source seven_rows 100) new_report [] (Some 7)
     = (Inr seven_rows,
        new_report\<lparr>initial_limit := 7, subtotals_visible := Some False,
                    definition_retrieved := True, filter_obj := Some empty_filter,
                    instance_id := Some ''I1'', dataframe := Some seven_rows\<rparr>,
        [Get_report_definition ''R1'', Post_report_instance 0 7])"
proof -
  let ?j = "page_body seven_rows ''I1'' 0 7"
  let ?res = "page seven_rows ''I1'' 100 0 7"
  let ?r1 = "new_report\<lparr>initial_limit := 7, subtotals_visible := Some False,
                    definition_retrieved := True, filter_obj := Some empty_filter\<rparr>"
  have h1: "first_page (mock_source seven_rows 100)
              (if truthy (Some 7) then new_report\<lparr>initial_limit := the (Some 7)\<rparr> else new_report) []
            = (Inr ?res, ?r1, [Get_report_definition ''R1'', Post_report_instance 0 7])"
    by (simp add: first_page_defs mock_source_def mock_env_def new_report_def init_variables_def
          empty_filter_def plain_definition_def truthy_def Let_def)
  have h2: "response_json ?res = Inr ?j"
    by (simp add: response_json_def page_def)
  have h3: "paging_current ?j = paging_total ?j"
    by (simp add: page_body_def seven_rows_def)
  have h4: "cross_tab_filter ?r1 = None"
    by (simp add: new_report_def init_variables_def)
  have h5: "data_rows ?j = seven_rows" "instanceId ?j = ''I1''"
    by (simp_all add: page_body_def seven_rows_def)
  from to_dataframe_single_page [OF h1 h2 h3] h4 h5 show ?thesis
    by simp
qed

text \<open>
  C7 (as stated) fails in two ways.  Against a server whose first page holds both rows
  of the report and \<open>totalCount = 2\<close>, but reports \<open>current = 1\<close>, \<open>to_dataframe\<close> with
  one row per page issues a request for a chunk after the first page.  And for the
  cross-tab report with \<open>apply_filters(attr_elements=[])\<close>, whose first page holds all
  seven rows, the returned table is empty: the rows of the first page are not its head.
\<close>

theorem to_dataframe_single_page_counterexample:
  "fst (first_page mock_miscount (new_report\<lparr>initial_limit := 1\<rparr>) [])
     = Inr \<lparr> ok = True, content_length = 100,
             json_body = Some \<lparr> instanceId = ''I1'', paging_current = 1, paging_total = 2,
                                data_rows = [[''a''], [''b'']] \<rparr> \<rparr>
   \<and> snd (snd (to_dataframe mock_miscount new_report [] (Some 1)))
     = [Get_report_definition ''R1'', Post_report_instance 0 1, Get_report_instance ''I1'' 1 1]
   \<and> fst (first_page mock_cross_tab (cross_tab_report\<lparr>initial_limit := 7\<rparr>) [])
     = Inr (page seven_rows ''I1'' 100 0 7)
   \<and> paging_total (page_body seven_rows ''I1'' 0 7) = 7
   \<and> data_rows (page_body seven_rows ''I1'' 0 7) = seven_rows
   \<and> fst (to_dataframe mock_cross_tab cross_tab_report [] (Some 7)) = Inr []"
proof -
  let ?j = "\<lparr> instanceId = ''I1'', paging_current = 1, paging_total = 2,
              data_rows = [[''a''], [''b'']] \<rparr>"
  let ?res = "\<lparr> ok = True, content_length = 100, json_body = Some ?j \<rparr>"
  let ?r1 = "new_report\<lparr>initial_limit := 1, subtotals_visible := Some False,
                         definition_retrieved := True, filter_obj := Some empty_filter\<rparr>"
  let ?tr1 = "[Get_report_definition ''R1'', Post_report_instance 0 1]"
  have h1: "first_page mock_miscount (new_report\<lparr>initial_limit := 1\<rparr>) [] = (Inr ?res, ?r1, ?tr1)"
    by (simp add: first_page_defs mock_miscount_def mock_env_def new_report_def init_variables_def
          empty_filter_def plain_definition_def two_rows_def Let_def)
  then have h1': "first_page mock_miscount
              (if truthy (Some 1) then new_report\<lparr>initial_limit := the (Some 1)\<rparr> else new_report) []
            = (Inr ?res, ?r1, ?tr1)"
    by (simp add: truthy_def)
  have h2: "response_json ?res = Inr ?j" by (simp add: response_json_def)
  have h3: "paging_current ?j \<noteq> paging_total ?j" by simp
  have it: "it_total_of 2 1 1 = Inr 1"
    by (simp add: it_total_of_def int_truediv_trunc)
  have rg: "py_range 1 2 1 = Inr [1]"
    by (simp add: py_range_def range_up.simps)
  have fr: "fetch_rest mock_miscount (?r1\<lparr>instance_id := Some (instanceId ?j)\<rparr>) ?tr1 (Some 1)
              (content_length ?res) (paging_total ?j) (instanceId ?j) (data_rows ?j)
            = (Inr [[''a''], [''b''], [''b'']], ?tr1 @ [Get_report_instance ''I1'' 1 1])"
    by (simp add: fetch_rest_def chunk_limit_def truthy_def it rg fetch_chunks_def
          new_report_def init_variables_def get_chunk_def report_instance_id_def checked_def
          mock_miscount_def mock_env_def parse_def page_def page_body_def response_json_def
          two_rows_def)
  have ctf: "cross_tab_filter ?r1 = None"
    by (simp add: new_report_def init_variables_def)
  have a: "snd (snd (to_dataframe mock_miscount new_report [] (Some 1)))
             = [Get_report_definition ''R1'', Post_report_instance 0 1, Get_report_instance ''I1'' 1 1]"
    by (simp only: to_dataframe_unfold [OF h1' h2 h3] fr) (simp add: ctf)
  let ?c1 = "cross_tab_report\<lparr>initial_limit := 7, subtotals_visible := Some False,
                                filter_obj := Some empty_filter\<rparr>"
  let ?cres = "page seven_rows ''I1'' 100 0 7"
  let ?cj = "page_body seven_rows ''I1'' 0 7"
  have ctr: "cross_tab_report
               = new_report\<lparr>report_name := ''report'', cross_tab := True, attributes := [],
                            metrics := [], definition_retrieved := True,
                            cross_tab_filter :=
                              Some \<lparr>ctf_attributes = None, ctf_metrics = None,
                                    ctf_attr_elements = Some []\<rparr>\<rparr>"
    by (simp add: cross_tab_report_def attributes_prop_def get_definition_def apply_filters_def
          mock_cross_tab_def mock_source_def mock_env_def new_report_def init_variables_def
          plain_definition_def Let_def)
  have c1: "first_page mock_cross_tab (cross_tab_report\<lparr>initial_limit := 7\<rparr>) []
              = (Inr ?cres, ?c1, [Post_report_instance 0 7])"
    by (simp add: ctr first_page_defs mock_cross_tab_def mock_source_def mock_env_def
          new_report_def init_variables_def empty_filter_def Let_def)
  then have c1': "first_page mock_cross_tab
              (if truthy (Some 7) then cross_tab_report\<lparr>initial_limit := the (Some 7)\<rparr>
               else cross_tab_report) []
            = (Inr ?cres, ?c1, [Post_report_instance 0 7])"
    by (simp add: truthy_def)
  have c2: "response_json ?cres = Inr ?cj" by (simp add: response_json_def page_def)
  have c3: "paging_current ?cj = paging_total ?cj" by (simp add: page_body_def seven_rows_def)
  have c4: "cross_tab_filter ?c1
              = Some \<lparr>ctf_attributes = None, ctf_metrics = None, ctf_attr_elements = Some []\<rparr>"
    by (simp add: ctr)
  have b: "fst (to_dataframe mock_cross_tab cross_tab_report [] (Some 7)) = Inr []"
    by (simp add: to_dataframe_single [OF c1' c2 c3] c4 cross_tab_post_def drop_metrics_def
          select_attr_elements_def drop_attributes_def attr_dict_of_def Let_def)
  show ?thesis
    using h1 a c1 b by (simp add: page_body_def seven_rows_def)
qed

section \<open>\<open>to_dataframe\<close>: malformed first pages\<close>

lemma with_total_fields [simp]:
  "ok (with_total n res) = ok res"
  "content_length (with_total n res) = content_length res"
  "json_body (with_total n res) = map_option (\<lambda>j. j\<lparr>paging_total := n\<rparr>) (json_body res)"
  by (simp_all add: with_total_def)

lemma response_json_with_total:
  "response_json (with_total n res)
     = (case response_json res of Inl e \<Rightarrow> Inl e | Inr j \<Rightarrow> Inr (j\<lparr>paging_total := n\<rparr>))"
  by (simp add: response_json_def split: option.splits)

text \<open>
  C8 (as amended).  There is no \<open>InvalidPlan\<close> error.  A first page whose body is empty
  never reaches the chunk plan: \<open>res.json()\<close> on line 305 raises the JSON decoding error,
  whatever limit is requested; no further request is sent, and neither \<open>instance_id\<close>
  nor \<open>_dataframe\<close> is set.
\<close>

theorem to_dataframe_empty_body:
  assumes "first_page E (if truthy limit then r\<lparr>initial_limit := the limit\<rparr> else r) tr
             = (Inr res, r1, tr1)"
    and "content_length res = 0"
  shows "to_dataframe E r tr limit = (Inl JSONDecodeError, r1, tr1)"
  using assms by (simp add: to_dataframe_def response_json_def)

theorem to_dataframe_empty_body_witness:
  "to_dataframe mock_empty_body new_report [] None
     = (Inl JSONDecodeError,
        new_report\<lparr>subtotals_visible := Some False, definition_retrieved := True,
                    filter_obj := Some empty_filter\<rparr>,
        [Get_report_definition ''R1'', Post_report_instance 0 1000])"
proof -
  let ?res = "\<lparr> ok = True, content_length = 0, json_body = None \<rparr>"
  have h1: "first_page mock_empty_body
              (if truthy None then new_report\<lparr>initial_limit := the None\<rparr> else new_report) []
            = (Inr ?res,
               new_report\<lparr>subtotals_visible := Some False, definition_retrieved := True,
                    filter_obj := Some empty_filter\<rparr>,
               [Get_report_definition ''R1'', Post_report_instance 0 1000])"
    by (simp add: truthy_def first_page_defs mock_empty_body_def mock_env_def new_report_def
          init_variables_def empty_filter_def plain_definition_def Let_def)
  have h2: "content_length ?res = 0" by simp
  from to_dataframe_empty_body [OF h1 h2] show ?thesis .
qed

text \<open>
  C8 (as stated) fails: a first page with a body of 100 bytes, no rows and
  \<open>totalCount = - 1\<close> is not rejected.  With no limit requested the chunk plan is
  computed from it (ten million rows per chunk, over an empty range of offsets) and
  \<open>to_dataframe\<close> returns normally, with the empty frame.
\<close>

theorem to_dataframe_negative_total_counterexample:
  "fst (first_page mock_negative_total new_report [])
     = Inr \<lparr> ok = True, content_length = 100,
             json_body = Some \<lparr> instanceId = ''I1'', paging_current = 0, paging_total = - 1,
                                data_rows = [] \<rparr> \<rparr>
   \<and> chunk_limit None 1000 100 = Inr 100000000
   \<and> fst (to_dataframe mock_negative_total new_report [] None) = Inr []"
proof -
  let ?j = "(page_body [] ''I1'' 0 1000)\<lparr>paging_total := - 1\<rparr>"
  let ?res = "with_total (- 1) (page [] ''I1'' 100 0 1000)"
  let ?r1 = "new_report\<lparr>subtotals_visible := Some False,
                         definition_retrieved := True, filter_obj := Some empty_filter\<rparr>"
  let ?tr1 = "[Get_report_definition ''R1'', Post_report_instance 0 1000]"
  have h0: "first_page mock_negative_total new_report [] = (Inr ?res, ?r1, ?tr1)"
    by (simp add: first_page_defs mock_negative_total_def mock_env_def new_report_def
          init_variables_def empty_filter_def plain_definition_def Let_def)
  then have h1: "first_page mock_negative_total
              (if truthy None then new_report\<lparr>initial_limit := the None\<rparr> else new_report) []
            = (Inr ?res, ?r1, ?tr1)"
    by (simp add: truthy_def)
  have h2: "response_json ?res = Inr ?j"
    by (simp add: response_json_with_total)
  have h3: "paging_current ?j \<noteq> paging_total ?j" by (simp add: page_body_def)
  have "int_truediv (1000 * SIZE_LIMIT) (int 100) = Inr ((1000 * SIZE_LIMIT) div int 100)"
    by (intro int_truediv_exact) (simp_all add: SIZE_LIMIT_def)
  then have cl: "chunk_limit None 1000 100 = Inr 100000000"
    by (simp add: chunk_limit_def truthy_def SIZE_LIMIT_def)
  have it: "it_total_of (- 1) 1000 100000000 = Inr 1"
    by (simp add: it_total_of_def int_truediv_trunc)
  have rg: "py_range 1000 (- 1) 100000000 = Inr []"
    by (simp add: py_range_def range_up.simps)
  have fr: "fetch_rest mock_negative_total (?r1\<lparr>instance_id := Some (instanceId ?j)\<rparr>) ?tr1 None
              (content_length ?res) (paging_total ?j) (instanceId ?j) (data_rows ?j)
            = (Inr [], ?tr1)"
    by (simp add: fetch_rest_def cl it rg fetch_chunks_def page_body_def
          new_report_def init_variables_def)
  have ctf: "cross_tab_filter ?r1 = None"
    by (simp add: new_report_def init_variables_def)
  have a: "fst (to_dataframe mock_negative_total new_report [] None) = Inr []"
    by (simp only: to_dataframe_unfold [OF h1 h2 h3] fr) (simp add: ctf)
  have "?res = \<lparr> ok = True, content_length = 100,
             json_body = Some \<lparr> instanceId = ''I1'', paging_current = 0, paging_total = - 1,
                                data_rows = [] \<rparr> \<rparr>"
    by (simp add: with_total_def page_def page_body_def)
  with h0 a cl show ?thesis by simp
qed

section \<open>\<open>to_dataframe\<close>: the total count of later pages\<close>

lemma with_get_total_fields [simp]:
  "project_selected (with_get_total g E) = project_selected E"
  "iserver_version_ge_11_2_0100 (with_get_total g E) = iserver_version_ge_11_2_0100 E"
  "http_report_definition (with_get_total g E) = http_report_definition E"
  "http_post_instance (with_get_total g E) = http_post_instance E"
  "Filter_new (with_get_total g E) = Filter_new E"
  "Filter_request_body (with_get_total g E) = Filter_request_body E"
  "frame_columns (with_get_total g E) = frame_columns E"
  "frame_drop (with_get_total g E) = frame_drop E"
  "frame_isin (with_get_total g E) = frame_isin E"
  by (simp_all add: with_get_total_def)

lemma checked_with_total:
  "checked (case out of Inl e \<Rightarrow> Inl e | Inr res \<Rightarrow> Inr (res\<lparr>json_body := v res\<rparr>))
     = (case checked out of Inl e \<Rightarrow> Inl e | Inr res \<Rightarrow> Inr (res\<lparr>json_body := v res\<rparr>))"
  by (cases out) (simp_all add: checked_def response_handler_def)

lemma response_json_retotal:
  "response_json (res\<lparr>json_body := map_option (\<lambda>j. j\<lparr>paging_total := v j\<rparr>) (json_body res)\<rparr>)
     = (case response_json res of Inl e \<Rightarrow> Inl e | Inr j \<Rightarrow> Inr (j\<lparr>paging_total := v j\<rparr>))"
  by (simp add: response_json_def split: option.splits)

lemma fetch_chunks_loop_with_get_total:
  "fetch_chunks_loop (with_get_total g E) r iid limit offsets p tr
     = fetch_chunks_loop E r iid limit offsets p tr"
proof (induction offsets arbitrary: p tr)
  case Nil
  show ?case by simp
next
  case (Cons offset offsets)
  have "report_instance_id (with_get_total g E) (report_id r) iid offset limit
          = (case report_instance_id E (report_id r) iid offset limit of
               Inl e \<Rightarrow> Inl e
             | Inr res \<Rightarrow>
                 Inr (res\<lparr>json_body :=
                            map_option (\<lambda>j. j\<lparr>paging_total := g offset (paging_total j)\<rparr>)
                              (json_body res)\<rparr>))"
    by (simp add: report_instance_id_def with_get_total_def checked_with_total)
  then show ?case
    using Cons.IH
    by (simp add: get_chunk_def parse_def response_json_retotal split: sum.splits)
qed

lemma parse_futures_with_get_total:
  "parse_futures p (map (\<lambda>offset. report_instance_id_coroutine (with_get_total g E) rid iid offset limit) offsets)
     = parse_futures p (map (\<lambda>offset. report_instance_id_coroutine E rid iid offset limit) offsets)"
proof (induction offsets arbitrary: p)
  case Nil
  show ?case by simp
next
  case (Cons offset offsets)
  have "report_instance_id_coroutine (with_get_total g E) rid iid offset limit
          = (case report_instance_id_coroutine E rid iid offset limit of
               Inl e \<Rightarrow> Inl e
             | Inr res \<Rightarrow>
                 Inr (res\<lparr>json_body :=
                            map_option (\<lambda>j. j\<lparr>paging_total := g offset (paging_total j)\<rparr>)
                              (json_body res)\<rparr>))"
    by (simp add: report_instance_id_coroutine_def with_get_total_def)
  then show ?case
    using Cons.IH
    by (simp add: parse_def response_handler_def response_json_retotal split: sum.splits)
qed

lemma fetch_rest_with_get_total:
  "fetch_rest (with_get_total g E) r tr limit content_len pag_total iid p
     = fetch_rest E r tr limit content_len pag_total iid p"
  by (auto simp: fetch_rest_def fetch_chunks_def fetch_chunks_future_def
        fetch_chunks_loop_with_get_total parse_futures_with_get_total
      split: sum.splits)

lemma get_definition_with_get_total:
  "get_definition (with_get_total g E) r tr = get_definition E r tr"
  by (simp add: get_definition_def cong: sum.case_cong prod.case_cong option.case_cong if_cong)

lemma initialize_report_with_get_total:
  "initialize_report (with_get_total g E) r tr limit = initialize_report E r tr limit"
  by (simp add: initialize_report_def filter_prop_def get_definition_with_get_total
        report_instance_def
        cong: sum.case_cong prod.case_cong option.case_cong if_cong)

lemma attr_indexes_with_get_total:
  "attr_indexes (with_get_total g E) df attr_dict indexes r tr
     = attr_indexes E df attr_dict indexes r tr"
proof (induction attr_dict arbitrary: indexes r tr)
  case Nil
  show ?case by simp
next
  case (Cons a attr_dict)
  obtain attribute elems where a: "a = (attribute, elems)" by (cases a)
  show ?case
    using Cons.IH
    by (simp add: a attributes_prop_def get_definition_with_get_total
          cong: sum.case_cong prod.case_cong option.case_cong list.case_cong if_cong)
qed

lemma cross_tab_post_with_get_total:
  "cross_tab_post (with_get_total g E) sel r tr df = cross_tab_post E sel r tr df"
  by (simp add: cross_tab_post_def drop_metrics_def select_attr_elements_def drop_attributes_def
        metrics_prop_def attributes_prop_def get_definition_with_get_total
        attr_indexes_with_get_total
        cong: sum.case_cong prod.case_cong option.case_cong if_cong)

text \<open>
  C3 (as amended).  \<open>to_dataframe\<close> never reads the total count of a page after the
  first: for a report without an instance (whose first page comes from the request that
  creates the instance), the outcome, the report and the requests are the same whatever
  total count the later pages carry.  No \<open>InconsistentTotal\<close> error exists.
\<close>

theorem to_dataframe_ignores_later_totals:
  assumes "instance_id r = None"
  shows "to_dataframe (with_get_total g E) r tr limit = to_dataframe E r tr limit"
proof -
  have fp: "first_page (with_get_total g E) r' tr = first_page E r' tr" if "instance_id r' = None" for r'
    using that by (simp add: first_page_def initialize_report_with_get_total)
  have fp1: "first_page (with_get_total g E) (r\<lparr>initial_limit := n\<rparr>) tr
               = first_page E (r\<lparr>initial_limit := n\<rparr>) tr" for n
    using assms by (intro fp) simp
  show ?thesis
    using assms
    by (simp add: to_dataframe_def fp fp1 fetch_rest_with_get_total cross_tab_post_with_get_total
          cong: sum.case_cong prod.case_cong option.case_cong if_cong)
qed

theorem to_dataframe_ignores_later_totals_witness:
  "instance_id new_report = None
   \<and> to_dataframe (with_get_total (\<lambda>offset n. 150) (mock_source seven_rows 100)) new_report [] (Some 2)
       = to_dataframe (mock_source seven_rows 100) new_report [] (Some 2)"
  using to_dataframe_ignores_later_totals
          [of new_report "\<lambda>offset n. 150" "mock_source seven_rows 100" "[]" "Some 2"]
  by (simp add: new_report_def init_variables_def)

text \<open>
  C3 (as stated) fails: against the mock source that reports \<open>totalCount = 100\<close> on the
  first page and \<open>totalCount = 150\<close> on the second, \<open>to_dataframe\<close> with 50 rows per page
  returns normally, with the 100 rows.
\<close>

theorem to_dataframe_drifting_counterexample:
  "fst (to_dataframe mock_drifting new_report [] (Some 50)) = Inr (replicate 100 [''x''])"
proof -
  let ?res = "page (replicate 100 [''x'']) ''I1'' 100 0 50"
  let ?j = "page_body (replicate 100 [''x'']) ''I1'' 0 50"
  let ?r1 = "new_report\<lparr>initial_limit := 50, subtotals_visible := Some False,
                         definition_retrieved := True, filter_obj := Some empty_filter\<rparr>"
  let ?tr1 = "[Get_report_definition ''R1'', Post_report_instance 0 50]"
  have h1: "first_page mock_drifting
              (if truthy (Some 50) then new_report\<lparr>initial_limit := the (Some 50)\<rparr> else new_report) []
            = (Inr ?res, ?r1, ?tr1)"
    by (simp add: first_page_defs mock_drifting_def mock_env_def new_report_def
          init_variables_def empty_filter_def plain_definition_def truthy_def Let_def)
  have h2: "response_json ?res = Inr ?j" by simp
  have h3: "paging_current ?j \<noteq> paging_total ?j" by (simp add: page_body_def)
  have it: "it_total_of 100 50 50 = Inr 1"
    by (simp add: it_total_of_def int_truediv_trunc)
  have rg: "py_range 50 100 50 = Inr [50]"
    by (simp add: py_range_def range_up.simps)
  have fr: "fetch_rest mock_drifting (?r1\<lparr>instance_id := Some (instanceId ?j)\<rparr>) ?tr1 (Some 50)
              (content_length ?res) (paging_total ?j) (instanceId ?j) (data_rows ?j)
            = (Inr (replicate 100 [''x'']), ?tr1 @ [Get_report_instance ''I1'' 50 50])"
    by (simp add: fetch_rest_def chunk_limit_def truthy_def it rg fetch_chunks_def page_body_def
          new_report_def init_variables_def get_chunk_def report_instance_id_def checked_def
          mock_drifting_def mock_env_def parse_def response_json_with_total
          replicate_add [symmetric])
  have ctf: "cross_tab_filter ?r1 = None"
    by (simp add: new_report_def init_variables_def)
  show ?thesis
    by (simp only: to_dataframe_unfold [OF h1 h2 h3] fr) (simp add: ctf)
qed

section \<open>\<open>to_dataframe\<close>: the sequential and the parallel path\<close>

lemma fetch_chunks_loop_futures:
  "fst (fetch_chunks_loop E r iid limit offsets p tr)
     = parse_futures p (map (\<lambda>offset. report_instance_id_coroutine E (report_id r) iid offset limit) offsets)"
proof (induction offsets arbitrary: p tr)
  case Nil
  show ?case by simp
next
  case (Cons offset offsets)
  show ?case
  proof (cases "http_get_instance E (report_id r) iid offset limit")
    case (Inl e)
    then show ?thesis
      by (simp add: get_chunk_def report_instance_id_def report_instance_id_coroutine_def
            checked_def)
  next
    case (Inr res)
    then show ?thesis
      using Cons.IH
      by (cases "response_json res")
         (simp_all add: get_chunk_def report_instance_id_def report_instance_id_coroutine_def
            checked_def response_handler_def)
  qed
qed

lemma fst_fetch_rest:
  "fst (fetch_rest E r tr limit content_len pag_total iid p)
     = (case chunk_limit limit (initial_limit r) content_len of
          Inl e \<Rightarrow> Inl e
        | Inr chunk \<Rightarrow>
            (case it_total_of pag_total (initial_limit r) chunk of
               Inl e \<Rightarrow> Inl e
             | Inr it_total \<Rightarrow>
                 (case py_range (initial_limit r) pag_total chunk of
                    Inl e \<Rightarrow> Inl e
                  | Inr offsets \<Rightarrow>
                      parse_futures p
                        (map (\<lambda>offset. report_instance_id_coroutine E (report_id r) iid offset chunk)
                           offsets))))"
  by (auto simp: fetch_rest_def fetch_chunks_def fetch_chunks_future_def fetch_chunks_loop_futures
           split: sum.splits)

lemma get_definition_parallel:
  "get_definition E (r\<lparr>parallel := b\<rparr>) tr
     = (case get_definition E r tr of (x, r1, tr1) \<Rightarrow> (x, r1\<lparr>parallel := b\<rparr>, tr1))"
  by (simp add: get_definition_def Let_def split: sum.splits option.splits prod.splits)

lemma filter_prop_parallel:
  "filter_prop E (r\<lparr>parallel := b\<rparr>) tr
     = (case filter_prop E r tr of (x, r1, tr1) \<Rightarrow> (x, r1\<lparr>parallel := b\<rparr>, tr1))"
  by (simp add: filter_prop_def get_definition_parallel Let_def
           split: sum.splits option.splits prod.splits)

lemma initialize_report_parallel:
  "initialize_report E (r\<lparr>parallel := b\<rparr>) tr limit
     = (case initialize_report E r tr limit of (x, r1, tr1) \<Rightarrow> (x, r1\<lparr>parallel := b\<rparr>, tr1))"
  by (simp add: initialize_report_def filter_prop_parallel Let_def
           split: sum.splits option.splits prod.splits)

lemma first_page_parallel:
  "first_page E (r\<lparr>parallel := b\<rparr>) tr
     = (case first_page E r tr of (x, r1, tr1) \<Rightarrow> (x, r1\<lparr>parallel := b\<rparr>, tr1))"
  by (simp add: first_page_def initialize_report_parallel get_chunk_def
           split: sum.splits option.splits prod.splits)

lemma get_definition_cross_tab_filter:
  "get_definition E r tr = (x, r1, tr1) \<Longrightarrow> cross_tab_filter r1 = cross_tab_filter r"
  by (auto simp: get_definition_def Let_def exception_handler_def
           split: sum.splits option.splits prod.splits if_splits)

lemma filter_prop_cross_tab_filter:
  "filter_prop E r tr = (x, r1, tr1) \<Longrightarrow> cross_tab_filter r1 = cross_tab_filter r"
  by (auto simp: filter_prop_def Let_def dest: get_definition_cross_tab_filter
           split: sum.splits option.splits prod.splits if_splits)

lemma initialize_report_cross_tab_filter:
  "initialize_report E r tr limit = (x, r1, tr1) \<Longrightarrow> cross_tab_filter r1 = cross_tab_filter r"
  by (auto simp: initialize_report_def Let_def dest: filter_prop_cross_tab_filter
           split: sum.splits option.splits prod.splits if_splits)

lemma first_page_cross_tab_filter:
  "first_page E r tr = (x, r1, tr1) \<Longrightarrow> cross_tab_filter r1 = cross_tab_filter r"
  by (auto simp: first_page_def dest: initialize_report_cross_tab_filter
           split: sum.splits option.splits prod.splits if_splits)

lemma fst_to_dataframe:
  assumes "cross_tab_filter r = None"
    and "first_page E (if truthy limit then r\<lparr>initial_limit := the limit\<rparr> else r) tr = (x, r1, tr1)"
  shows "fst (to_dataframe E r tr limit)
           = (case x of
                Inl e \<Rightarrow> Inl e
              | Inr res \<Rightarrow>
                  (case response_json res of
                     Inl e \<Rightarrow> Inl e
                   | Inr j \<Rightarrow>
                       if paging_current j \<noteq> paging_total j
                       then fst (fetch_rest E (r1\<lparr>instance_id := Some (instanceId j)\<rparr>) tr1 limit
                                   (content_length res) (paging_total j) (instanceId j) (data_rows j))
                       else Inr (data_rows j)))"
proof -
  have "cross_tab_filter r1 = None"
    using first_page_cross_tab_filter [OF assms(2)] assms(1) by (simp split: if_splits)
  then show ?thesis
    using assms(2)
    by (auto simp: to_dataframe_def Let_def parse_def Parser_new_def parser_dataframe_def
             split: sum.splits prod.splits)
qed

text \<open>
  C2.  For every server, every report without a cross-tab filter and every requested
  limit, \<open>to_dataframe\<close> gives the same outcome (the same frame, or the same exception) with
  \<open>parallel = True\<close>, where the chunks are fetched through futures, as with
  \<open>parallel = False\<close>, where they are fetched one after the other.
\<close>

theorem to_dataframe_parallel_sequential:
  assumes "cross_tab_filter r = None"
  shows "fst (to_dataframe E (r\<lparr>parallel := True\<rparr>) tr limit)
           = fst (to_dataframe E (r\<lparr>parallel := False\<rparr>) tr limit)"
proof -
  obtain x r1 tr1 where fp:
    "first_page E (if truthy limit then r\<lparr>initial_limit := the limit\<rparr> else r) tr = (x, r1, tr1)"
    by (metis prod_cases3)
  have fpb: "first_page E (if truthy limit then r\<lparr>parallel := b, initial_limit := the limit\<rparr>
                           else r\<lparr>parallel := b\<rparr>) tr = (x, r1\<lparr>parallel := b\<rparr>, tr1)" for b
  proof (cases "truthy limit")
    case True
    then have "first_page E (r\<lparr>initial_limit := the limit\<rparr>) tr = (x, r1, tr1)" using fp by simp
    then have "first_page E (r\<lparr>initial_limit := the limit\<rparr>\<lparr>parallel := b\<rparr>) tr
                 = (x, r1\<lparr>parallel := b\<rparr>, tr1)"
      by (simp only: first_page_parallel) simp
    moreover have "r\<lparr>parallel := b, initial_limit := the limit\<rparr>
                     = r\<lparr>initial_limit := the limit\<rparr>\<lparr>parallel := b\<rparr>"
      by (cases r) simp
    ultimately have "first_page E (r\<lparr>parallel := b, initial_limit := the limit\<rparr>) tr
                 = (x, r1\<lparr>parallel := b\<rparr>, tr1)"
      by (simp only:)
    then show ?thesis using True by (simp only: if_True)
  next
    case False
    then have "first_page E r tr = (x, r1, tr1)" using fp by simp
    then show ?thesis using False by (simp add: first_page_parallel)
  qed
  have ctf: "cross_tab_filter (r\<lparr>parallel := b\<rparr>) = None" for b using assms by simp
  show ?thesis
    by (simp add: fst_to_dataframe [OF ctf fpb] fst_fetch_rest cong: sum.case_cong if_cong)
qed

theorem to_dataframe_parallel_sequential_witness:
  "cross_tab_filter new_report = None
   \<and> fst (to_dataframe (mock_source seven_rows 100) (new_report\<lparr>parallel := True\<rparr>) [] (Some 2))
       = fst (to_dataframe (mock_source seven_rows 100) (new_report\<lparr>parallel := False\<rparr>) [] (Some 2))"
  using to_dataframe_parallel_sequential [of new_report "mock_source seven_rows 100" "[]" "Some 2"]
  by (simp add: new_report_def init_variables_def)

section \<open>\<open>to_dataframe\<close>: a chunk that fails\<close>

lemma response_json_error:
  "response_json res = Inl e \<Longrightarrow> e = JSONDecodeError"
  by (auto simp: response_json_def split: if_splits option.splits)

lemma not_failed:
  assumes "\<not> failed out"
  obtains res j where "out = Inr res" "ok res" "response_json res = Inr j"
proof (cases out)
  case (Inl e)
  then show ?thesis using assms by (simp add: failed_def)
next
  case (Inr res)
  then have "ok res" "\<not> isl (response_json res)" using assms by (simp_all add: failed_def)
  then obtain j where "response_json res = Inr j" by (cases "response_json res") simp_all
  then show ?thesis using that Inr \<open>ok res\<close> by blast
qed

lemma fetch_chunks_loop_failure:
  assumes "\<forall>offset \<in> set pre. \<not> failed (http_get_instance E (report_id r) iid offset limit)"
    and "failed (http_get_instance E (report_id r) iid bad limit)"
  shows "fetch_chunks_loop E r iid limit (pre @ bad # post) p tr
           = (Inl (failure_of (http_get_instance E (report_id r) iid bad limit)),
              tr @ map (\<lambda>offset. Get_report_instance iid offset limit) (pre @ [bad]))"
  using assms
proof (induction pre arbitrary: p tr)
  case Nil
  show ?case
  proof (cases "http_get_instance E (report_id r) iid bad limit")
    case (Inl e)
    then show ?thesis
      by (simp add: get_chunk_def report_instance_id_def checked_def failure_of_def)
  next
    case (Inr res)
    show ?thesis
    proof (cases "ok res")
      case False
      then show ?thesis
        using Inr
        by (simp add: get_chunk_def report_instance_id_def checked_def response_handler_def
              failure_of_def)
    next
      case True
      then have "isl (response_json res)" using Nil.prems(2) Inr by (simp add: failed_def)
      then obtain e where "response_json res = Inl e" by (cases "response_json res") simp_all
      then have "response_json res = Inl JSONDecodeError" using response_json_error by blast
      then show ?thesis
        using Inr True
        by (simp add: get_chunk_def report_instance_id_def checked_def failure_of_def)
    qed
  qed
next
  case (Cons offset pre)
  from Cons.prems(1) have "\<not> failed (http_get_instance E (report_id r) iid offset limit)" by simp
  then obtain res j where
    res: "http_get_instance E (report_id r) iid offset limit = Inr res" "ok res"
         "response_json res = Inr j"
    by (rule not_failed)
  have "fetch_chunks_loop E r iid limit ((offset # pre) @ bad # post) p tr
          = fetch_chunks_loop E r iid limit (pre @ bad # post) (parse p j)
              (tr @ [Get_report_instance iid offset limit])"
    using res by (simp add: get_chunk_def report_instance_id_def checked_def)
  also have "\<dots> = (Inl (failure_of (http_get_instance E (report_id r) iid bad limit)),
                   (tr @ [Get_report_instance iid offset limit])
                   @ map (\<lambda>offset. Get_report_instance iid offset limit) (pre @ [bad]))"
    using Cons.prems by (intro Cons.IH) simp_all
  finally show ?case by simp
qed

lemma parse_futures_failure:
  assumes "\<forall>offset \<in> set pre. \<not> failed (http_get_instance E rid iid offset limit)"
    and "failed (http_get_instance E rid iid bad limit)"
  shows "parse_futures p
           (map (\<lambda>offset. report_instance_id_coroutine E rid iid offset limit) (pre @ bad # post))
           = Inl (failure_of (http_get_instance E rid iid bad limit))"
  using assms
proof (induction pre arbitrary: p)
  case Nil
  show ?case
  proof (cases "http_get_instance E rid iid bad limit")
    case (Inl e)
    then show ?thesis
      by (simp add: report_instance_id_coroutine_def failure_of_def)
  next
    case (Inr res)
    show ?thesis
    proof (cases "ok res")
      case False
      then show ?thesis
        using Inr
        by (simp add: report_instance_id_coroutine_def response_handler_def failure_of_def)
    next
      case True
      then have "isl (response_json res)" using Nil.prems(2) Inr by (simp add: failed_def)
      then obtain e where "response_json res = Inl e" by (cases "response_json res") simp_all
      then have "response_json res = Inl JSONDecodeError" using response_json_error by blast
      then show ?thesis
        using Inr True
        by (simp add: report_instance_id_coroutine_def failure_of_def)
    qed
  qed
next
  case (Cons offset pre)
  from Cons.prems(1) have "\<not> failed (http_get_instance E rid iid offset limit)" by simp
  then obtain res j where
    res: "http_get_instance E rid iid offset limit = Inr res" "ok res" "response_json res = Inr j"
    by (rule not_failed)
  have "parse_futures p
          (map (\<lambda>offset. report_instance_id_coroutine E rid iid offset limit) ((offset # pre) @ bad # post))
        = parse_futures (parse p j)
          (map (\<lambda>offset. report_instance_id_coroutine E rid iid offset limit) (pre @ bad # post))"
    using res by (simp add: report_instance_id_coroutine_def)
  also have "\<dots> = Inl (failure_of (http_get_instance E rid iid bad limit))"
    using Cons.prems by (intro Cons.IH) simp_all
  finally show ?case .
qed

text \<open>
  C5.  Let the first page not hold all rows, let the plan give the offsets
  \<open>pre @ bad # post\<close>, let the chunks at the offsets \<open>pre\<close> arrive and the chunk at \<open>bad\<close>
  fail.  Then \<open>to_dataframe\<close> raises the exception of that chunk and returns no frame,
  and \<open>_dataframe\<close> keeps the value it had.  On the sequential path the requests stop
  with the one for \<open>bad\<close>; on the parallel path (\<open>parallel\<close> set and more than one
  iteration) all requests of the plan have been submitted before the first result is
  read.
\<close>

theorem to_dataframe_chunk_failure:
  assumes "first_page E (if truthy limit then r\<lparr>initial_limit := the limit\<rparr> else r) tr
             = (Inr res, r1, tr1)"
    and "response_json res = Inr j"
    and "paging_current j \<noteq> paging_total j"
    and "chunk_limit limit (initial_limit r1) (content_length res) = Inr chunk"
    and "it_total_of (paging_total j) (initial_limit r1) chunk = Inr it_total"
    and "py_range (initial_limit r1) (paging_total j) chunk = Inr (pre @ bad # post)"
    and "\<forall>offset \<in> set pre.
           \<not> failed (http_get_instance E (report_id r1) (instanceId j) offset chunk)"
    and "failed (http_get_instance E (report_id r1) (instanceId j) bad chunk)"
  shows "to_dataframe E r tr limit
           = (Inl (failure_of (http_get_instance E (report_id r1) (instanceId j) bad chunk)),
              r1\<lparr>instance_id := Some (instanceId j)\<rparr>,
              tr1 @ map (\<lambda>offset. Get_report_instance (instanceId j) offset chunk)
                      (if parallel r1 \<and> 1 < it_total then pre @ bad # post else pre @ [bad]))"
proof -
  let ?r2 = "r1\<lparr>instance_id := Some (instanceId j)\<rparr>"
  have seq: "fetch_chunks_loop E ?r2 (instanceId j) chunk (pre @ bad # post) (data_rows j) tr1
               = (Inl (failure_of (http_get_instance E (report_id r1) (instanceId j) bad chunk)),
                  tr1 @ map (\<lambda>offset. Get_report_instance (instanceId j) offset chunk) (pre @ [bad]))"
    using fetch_chunks_loop_failure [of pre E ?r2 "instanceId j" chunk bad post "data_rows j" tr1]
      assms(7,8) by simp
  have par: "parse_futures (data_rows j)
               (map (\<lambda>offset. report_instance_id_coroutine E (report_id r1) (instanceId j) offset chunk)
                  (pre @ bad # post))
             = Inl (failure_of (http_get_instance E (report_id r1) (instanceId j) bad chunk))"
    using assms(7,8) by (rule parse_futures_failure)
  have "fetch_rest E ?r2 tr1 limit (content_length res) (paging_total j) (instanceId j) (data_rows j)
          = (Inl (failure_of (http_get_instance E (report_id r1) (instanceId j) bad chunk)),
             tr1 @ map (\<lambda>offset. Get_report_instance (instanceId j) offset chunk)
                     (if parallel r1 \<and> 1 < it_total then pre @ bad # post else pre @ [bad]))"
    using assms(4,5,6) seq par
    by (simp add: fetch_rest_def fetch_chunks_def fetch_chunks_future_def)
  then show ?thesis
    by (simp add: to_dataframe_unfold [OF assms(1,2,3)])
qed

theorem to_dataframe_chunk_failure_witness:
  "to_dataframe (mock_failing seven_rows 100 4) (new_report\<lparr>parallel := True\<rparr>) [] (Some 2)
     = (Inl HTTPError,
        new_report\<lparr>parallel := True, initial_limit := 2, subtotals_visible := Some False,
                    definition_retrieved := True, filter_obj := Some empty_filter,
                    instance_id := Some ''I1''\<rparr>,
        [Get_report_definition ''R1'', Post_report_instance 0 2, Get_report_instance ''I1'' 2 2,
         Get_report_instance ''I1'' 4 2, Get_report_instance ''I1'' 6 2])
   \<and> to_dataframe (mock_failing seven_rows 100 4) (new_report\<lparr>parallel := False\<rparr>) [] (Some 2)
     = (Inl HTTPError,
        new_report\<lparr>parallel := False, initial_limit := 2, subtotals_visible := Some False,
                    definition_retrieved := True, filter_obj := Some empty_filter,
                    instance_id := Some ''I1''\<rparr>,
        [Get_report_definition ''R1'', Post_report_instance 0 2, Get_report_instance ''I1'' 2 2,
         Get_report_instance ''I1'' 4 2])"
proof -
  let ?E = "mock_failing seven_rows 100 4"
  let ?res = "page seven_rows ''I1'' 100 0 2"
  let ?j = "page_body seven_rows ''I1'' 0 2"
  let ?tr1 = "[Get_report_definition ''R1'', Post_report_instance 0 2]"
  have run: "to_dataframe ?E (new_report\<lparr>parallel := b\<rparr>) [] (Some 2)
     = (Inl HTTPError,
        new_report\<lparr>parallel := b, initial_limit := 2, subtotals_visible := Some False,
                    definition_retrieved := True, filter_obj := Some empty_filter,
                    instance_id := Some ''I1''\<rparr>,
        ?tr1 @ map (\<lambda>offset. Get_report_instance ''I1'' offset 2) (if b then [2, 4, 6] else [2, 4]))"
    for b
  proof -
    let ?r1 = "new_report\<lparr>parallel := b, initial_limit := 2, subtotals_visible := Some False,
                           definition_retrieved := True, filter_obj := Some empty_filter\<rparr>"
    have h1: "first_page ?E
                (if truthy (Some 2) then new_report\<lparr>parallel := b\<rparr>\<lparr>initial_limit := the (Some 2)\<rparr>
                 else new_report\<lparr>parallel := b\<rparr>) []
              = (Inr ?res, ?r1, ?tr1)"
      by (simp add: first_page_defs mock_failing_def mock_env_def new_report_def
            init_variables_def empty_filter_def plain_definition_def truthy_def Let_def)
    have h2: "response_json ?res = Inr ?j" by simp
    have h3: "paging_current ?j \<noteq> paging_total ?j"
      by (simp add: page_body_def seven_rows_def)
    have h4: "chunk_limit (Some 2) (initial_limit ?r1) (content_length ?res) = Inr 2"
      by (simp add: chunk_limit_def truthy_def)
    have h5: "it_total_of (paging_total ?j) (initial_limit ?r1) 2 = Inr 3"
      by (simp add: it_total_of_def int_truediv_trunc page_body_def seven_rows_def)
    have h6: "py_range (initial_limit ?r1) (paging_total ?j) 2 = Inr ([2] @ 4 # [6])"
      by (simp add: py_range_def range_up.simps page_body_def seven_rows_def)
    have h7: "\<forall>offset \<in> set [2].
                \<not> failed (http_get_instance ?E (report_id ?r1) (instanceId ?j) offset 2)"
      by (simp add: failed_def mock_failing_def mock_env_def)
    have h8: "failed (http_get_instance ?E (report_id ?r1) (instanceId ?j) 4 2)"
      by (simp add: failed_def mock_failing_def mock_env_def)
    have f: "failure_of (http_get_instance ?E rid iid 4 2) = HTTPError" for rid iid
      by (simp add: failure_of_def mock_failing_def mock_env_def)
    have i: "instanceId ?j = ''I1''" by (simp add: page_body_def)
    have p: "parallel ?r1 = b" by simp
    show ?thesis
      using to_dataframe_chunk_failure [OF h1 h2 h3 h4 h5 h6 h7 h8]
      by (cases b) (simp_all add: f i)
  qed
  from run [of True] run [of False] show ?thesis by simp
qed

section \<open>The chunk plan\<close>

text \<open>
  C4 (as amended).  When no limit is requested, the first page has a body of positive
  size and \<open>initial_limit * SIZE_LIMIT\<close> is below \<open>2^53\<close> (as it is for the initial limit
  1000 set by the constructor), the rows per chunk are
  \<open>max(1000, floor(initial_limit * 10000000 / len(res.content)))\<close>.
\<close>

theorem chunk_limit_derived:
  assumes "\<not> truthy limit" and "0 < content_len"
    and "0 \<le> il" and "il * SIZE_LIMIT < 2 ^ 53"
  shows "chunk_limit limit il content_len
           = Inr (max 1000 \<lfloor>(of_int (il * 10000000) :: rat) / of_int (int content_len)\<rfloor>)"
proof -
  have "0 \<le> il * SIZE_LIMIT" using assms(3) by (simp add: SIZE_LIMIT_def)
  then have "int_truediv (il * SIZE_LIMIT) (int content_len)
               = Inr ((il * SIZE_LIMIT) div int content_len)"
    using assms(2,4) by (intro int_truediv_exact) simp_all
  then have "chunk_limit limit il content_len
               = Inr (max 1000 ((il * 10000000) div int content_len))"
    using assms(1) by (simp add: chunk_limit_def SIZE_LIMIT_def)
  moreover have "\<lfloor>(of_int (il * 10000000) :: rat) / of_int (int content_len)\<rfloor>
                   = (il * 10000000) div int content_len"
    by (rule floor_divide_of_int_eq)
  ultimately show ?thesis by (simp only:)
qed

theorem chunk_limit_derived_witness:
  "chunk_limit None 1000 2000000 = Inr 5000"
proof -
  have "\<lfloor>(of_int (1000 * 10000000) :: rat) / of_int (int 2000000)\<rfloor> = 5000"
    by (simp only: floor_divide_of_int_eq) simp
  moreover have "chunk_limit None 1000 2000000
           = Inr (max 1000 \<lfloor>(of_int (1000 * 10000000) :: rat) / of_int (int 2000000)\<rfloor>)"
    by (rule chunk_limit_derived) (simp_all add: truthy_def SIZE_LIMIT_def)
  ultimately show ?thesis by (simp only:) simp
qed

text \<open>
  C4 (as stated) fails beyond \<open>2^53\<close>, where the quotient is rounded to binary64 before
  \<open>int()\<close> truncates it: with the initial limit \<open>10^10\<close> (left by an earlier call) and a
  first page of 21993833369 bytes the rows per chunk are 4546729, while
  \<open>floor(10^17 / 21993833369) = 4546728\<close>.
\<close>

theorem chunk_limit_binary64_counterexample:
  "chunk_limit None 10000000000 21993833369 = Inr 4546729
   \<and> max 1000 \<lfloor>(of_int (10000000000 * 10000000) :: rat) / of_int (int 21993833369)\<rfloor> = 4546728"
proof
  have e: "ilog2 100000000000000000 21993833369 = 22"
    by (rule ilog2_unique) (simp_all add: pow2_def)
  have "\<lfloor>(of_int 107374182400000000000000000 :: rat) / of_int 21993833369\<rfloor>
          = 107374182400000000000000000 div 21993833369"
    by (rule floor_divide_of_int_eq)
  then have fl: "\<lfloor>(107374182400000000000000000 :: rat) / 21993833369\<rfloor> = 4882013089693695"
    by simp
  have "float_round_pos 100000000000000000 21993833369 = Inr 4546729"
    by (simp add: float_round_pos_def e Let_def pow2_def round_half_even_def fl)
  then show "chunk_limit None 10000000000 21993833369 = Inr 4546729"
    by (simp add: chunk_limit_def truthy_def SIZE_LIMIT_def int_truediv_def truediv_def
          int_of_float_def)
  show "max 1000 \<lfloor>(of_int (10000000000 * 10000000) :: rat) / of_int (int 21993833369)\<rfloor> = 4546728"
    by (simp only: floor_divide_of_int_eq) simp
qed






lemma mock_source_run:
  "\<exists>df. to_dataframe (mock_source seven_rows 100) (new_report\<lparr>parallel := b\<rparr>) [] (Some 2)
     = (Inr df,
        new_report\<lparr>parallel := b, initial_limit := 2, subtotals_visible := Some False,
                    definition_retrieved := True, filter_obj := Some empty_filter,
                    instance_id := Some ''I1'', dataframe := Some df\<rparr>,
        [Get_report_definition ''R1'', Post_report_instance 0 2, Get_report_instance ''I1'' 2 2,
         Get_report_instance ''I1'' 4 2, Get_report_instance ''I1'' 6 2])"
proof -
  let ?E = "mock_source seven_rows 100"
  let ?res = "page seven_rows ''I1'' 100 0 2"
  let ?j = "page_body seven_rows ''I1'' 0 2"
  let ?tr1 = "[Get_report_definition ''R1'', Post_report_instance 0 2]"
  let ?tr2 = "?tr1 @ [Get_report_instance ''I1'' 2 2, Get_report_instance ''I1'' 4 2,
                     Get_report_instance ''I1'' 6 2]"
  let ?rb = "new_report\<lparr>parallel := b\<rparr>"
  let ?r1 = "new_report\<lparr>parallel := b, initial_limit := 2, subtotals_visible := Some False,
                         definition_retrieved := True, filter_obj := Some empty_filter\<rparr>"
  have h1: "first_page ?E
              (if truthy (Some 2) then ?rb\<lparr>initial_limit := the (Some 2)\<rparr> else ?rb) []
            = (Inr ?res, ?r1, ?tr1)"
    by (simp add: first_page_defs mock_source_def mock_env_def new_report_def
          init_variables_def empty_filter_def plain_definition_def truthy_def Let_def)
  have h2: "response_json ?res = Inr ?j" by simp
  have h3: "paging_current ?j \<noteq> paging_total ?j"
    by (simp add: page_body_def seven_rows_def)
  have it: "it_total_of 7 2 2 = Inr 3"
    by (simp add: it_total_of_def int_truediv_trunc)
  have rg: "py_range 2 7 2 = Inr [2, 4, 6]"
    by (simp add: py_range_def range_up.simps)
  have "\<exists>df. fetch_rest ?E (?r1\<lparr>instance_id := Some (instanceId ?j)\<rparr>) ?tr1 (Some 2)
              (content_length ?res) (paging_total ?j) (instanceId ?j) (data_rows ?j) = (Inr df, ?tr2)"
    by (cases b)
       (simp_all add: fetch_rest_def chunk_limit_def truthy_def it rg fetch_chunks_def
          fetch_chunks_future_def get_chunk_def report_instance_id_def
          report_instance_id_coroutine_def checked_def parse_def mock_source_def mock_env_def
          new_report_def init_variables_def page_body_def seven_rows_def)
  then obtain df where fr: "fetch_rest ?E (?r1\<lparr>instance_id := Some (instanceId ?j)\<rparr>) ?tr1 (Some 2)
              (content_length ?res) (paging_total ?j) (instanceId ?j) (data_rows ?j) = (Inr df, ?tr2)"
    by blast
  have ctf: "cross_tab_filter ?r1 = None"
    by (simp add: new_report_def init_variables_def)
  have i: "instanceId ?j = ''I1''" by (simp add: page_body_def)
  have "to_dataframe ?E ?rb [] (Some 2)
          = (Inr df, ?r1\<lparr>instance_id := Some ''I1'', dataframe := Some df\<rparr>, ?tr2)"
    by (simp only: to_dataframe_unfold [OF h1 h2 h3] fr) (simp add: ctf i)
  then show ?thesis by simp
qed




section \<open>\<open>to_dataframe\<close>: the rows of the returned frame\<close>

lemma get_definition_keeps:
  "get_definition E r tr = (x, r1, tr1)
     \<Longrightarrow> report_id r1 = report_id r \<and> initial_limit r1 = initial_limit r"
  by (auto simp: get_definition_def Let_def exception_handler_def
           split: sum.splits option.splits prod.splits if_splits)

lemma filter_prop_keeps:
  "filter_prop E r tr = (x, r1, tr1)
     \<Longrightarrow> report_id r1 = report_id r \<and> initial_limit r1 = initial_limit r"
  by (auto simp: filter_prop_def Let_def dest: get_definition_keeps
           split: sum.splits option.splits prod.splits if_splits)

lemma checked_Inr: "checked out = Inr res \<Longrightarrow> out = Inr res \<and> ok res"
  by (cases out) (auto simp: checked_def response_handler_def split: if_splits)

lemma initialize_report_page:
  assumes "initialize_report E r tr limit = (Inr res, r1, tr1)"
    and "serves E (report_id r) src" and "0 < initial_limit r"
    and "response_json res = Inr j"
  shows "page_of src 0 (initial_limit r) j
         \<and> report_id r1 = report_id r \<and> initial_limit r1 = initial_limit r"
proof -
  obtain y r0 tr0 where fp: "filter_prop E r tr = (y, r0, tr0)"
    by (metis prod_cases3)
  note k = filter_prop_keeps [OF fp]
  show ?thesis
  proof (cases y)
    case (Inl e)
    then show ?thesis using assms(1) by (simp add: initialize_report_def fp)
  next
    case (Inr f)
    define r2 where
      "r2 = (if iserver_version_ge_11_2_0100 E then r0\<lparr>subtotals_visible := Some False\<rparr> else r0)"
    define body where
      "body = \<lparr> view_filter = Filter_request_body E f,
                 body_subtotals_visible = (if iserver_version_ge_11_2_0100 E then Some False else None) \<rparr>"
    have k2: "report_id r2 = report_id r" "initial_limit r2 = initial_limit r"
      using k by (simp_all add: r2_def)
    have "initialize_report E r tr limit
            = (report_instance E (report_id r2) body 0 (initial_limit r2), r2,
               tr0 @ [Post_report_instance 0 (initial_limit r2)])"
      by (simp add: initialize_report_def fp Inr Let_def r2_def body_def)
    with assms(1) have ri: "report_instance E (report_id r2) body 0 (initial_limit r2) = Inr res"
      and r1: "r1 = r2" by auto
    from ri have "checked (http_post_instance E (report_id r) body 0 (initial_limit r)) = Inr res"
      by (simp add: report_instance_def k2)
    then have post: "http_post_instance E (report_id r) body 0 (initial_limit r) = Inr res" "ok res"
      by (simp_all add: checked_Inr)
    have "page_of src 0 (initial_limit r) j"
      using assms(2,3,4) post unfolding serves_def by blast
    then show ?thesis using r1 k2 by simp
  qed
qed

lemma first_page_page:
  assumes "first_page E r tr = (Inr res, r1, tr1)"
    and "serves E (report_id r) src" and "0 < initial_limit r"
    and "response_json res = Inr j"
  shows "page_of src 0 (initial_limit r) j
         \<and> report_id r1 = report_id r \<and> initial_limit r1 = initial_limit r"
proof (cases "instance_id r")
  case None
  then show ?thesis
    using assms by (auto simp: first_page_def dest: initialize_report_page)
next
  case (Some iid)
  show ?thesis
  proof (cases "report_instance_id E (report_id r) iid 0 (initial_limit r)")
    case (Inl e)
    then show ?thesis
      using assms Some
      by (auto simp: first_page_def get_chunk_def dest: initialize_report_page split: if_splits)
  next
    case (Inr res')
    then have "res' = res" "r1 = r"
      using assms(1) Some by (simp_all add: first_page_def get_chunk_def)
    moreover from Inr have "http_get_instance E (report_id r) iid 0 (initial_limit r) = Inr res'" "ok res'"
      by (auto simp: report_instance_id_def dest: checked_Inr)
    ultimately show ?thesis
      using assms(2,3,4) by (auto simp: serves_def)
  qed
qed

lemma parse_futures_pages:
  assumes "serves E rid src" and "0 < chunk"
    and "\<forall>offset \<in> set offsets. 0 \<le> offset"
    and "parse_futures p (map (\<lambda>offset. report_instance_id_coroutine E rid iid offset chunk) offsets)
           = Inr df"
  shows "df = p @ concat (map (\<lambda>offset. take (nat chunk) (drop (nat offset) src)) offsets)"
  using assms(3,4)
proof (induction offsets arbitrary: p)
  case Nil
  then show ?case by simp
next
  case (Cons offset offsets)
  from Cons.prems(2) obtain res j where
    res: "http_get_instance E rid iid offset chunk = Inr res" "ok res" "response_json res = Inr j"
    and rest: "parse_futures (parse p j)
                 (map (\<lambda>offset. report_instance_id_coroutine E rid iid offset chunk) offsets) = Inr df"
    by (auto simp: report_instance_id_coroutine_def response_handler_def
             split: sum.splits if_splits)
  have "page_of src offset chunk j"
    using assms(1,2) res Cons.prems(1) by (auto simp: serves_def)
  then have "parse p j = p @ take (nat chunk) (drop (nat offset) src)"
    by (simp add: parse_def page_of_def)
  moreover have "df = parse p j
                   @ concat (map (\<lambda>offset. take (nat chunk) (drop (nat offset) src)) offsets)"
    using Cons.prems(1) rest by (intro Cons.IH) simp_all
  ultimately show ?case by simp
qed

lemma range_up_nonneg: "0 \<le> a \<Longrightarrow> \<forall>offset \<in> set (range_up a b s). 0 \<le> offset"
proof (induction a b s rule: range_up.induct)
  case (1 a b s)
  show ?case
  proof (cases "0 < s \<and> a < b")
    case True
    then have "range_up a b s = a # range_up (a + s) b s" by (subst range_up.simps) simp
    moreover have "\<forall>offset \<in> set (range_up (a + s) b s). 0 \<le> offset"
      using True "1.prems" by (intro "1.IH") simp_all
    ultimately show ?thesis using "1.prems" by simp
  next
    case False
    then have "range_up a b s = []" by (subst range_up.simps) simp
    then show ?thesis by simp
  qed
qed

lemma range_up_chunks:
  "0 < s \<Longrightarrow> 0 \<le> a \<Longrightarrow>
     concat (map (\<lambda>offset. take (nat s) (drop (nat offset) src)) (range_up a (int (length src)) s))
       = drop (nat a) src"
proof (induction a "int (length src)" s rule: range_up.induct)
  case (1 a s)
  show ?case
  proof (cases "a < int (length src)")
    case True
    then have "range_up a (int (length src)) s = a # range_up (a + s) (int (length src)) s"
      using "1.prems" by (subst range_up.simps) simp
    moreover have "concat (map (\<lambda>offset. take (nat s) (drop (nat offset) src))
                     (range_up (a + s) (int (length src)) s)) = drop (nat (a + s)) src"
      using True "1.prems" by (intro "1.hyps") simp_all
    moreover have "drop (nat (a + s)) src = drop (nat s) (drop (nat a) src)"
      using "1.prems" by (simp add: nat_add_distrib add.commute)
    ultimately show ?thesis
      by (simp only: list.map concat.simps append_take_drop_id)
  next
    case False
    then have "range_up a (int (length src)) s = []" by (subst range_up.simps) simp
    then show ?thesis using False by simp
  qed
qed

text \<open>
  C1 (as amended).  Let the server answer from the rows \<open>src\<close>, let the report have a
  positive initial limit and no cross-tab filter, and let the limit asked for, if any,
  not be negative.  Whenever \<open>to_dataframe\<close> returns a frame, on the sequential as on
  the parallel path, the frame is \<open>src\<close>: it has as many rows as the source, and its
  row \<open>i\<close> is the row of the source at offset \<open>i\<close>.
\<close>

theorem to_dataframe_rows:
  assumes "serves E (report_id r) src"
    and "cross_tab_filter r = None"
    and "0 < initial_limit r"
    and "\<forall>n. limit = Some n \<longrightarrow> 0 \<le> n"
    and "to_dataframe E r tr limit = (Inr df, r', tr')"
  shows "df = src \<and> length df = length src \<and> (\<forall>i < length src. df ! i = src ! i)"
proof -
  let ?r0 = "if truthy limit then r\<lparr>initial_limit := the limit\<rparr> else r"
  obtain x r1 tr1 where fp: "first_page E ?r0 tr = (x, r1, tr1)"
    by (metis prod_cases3)
  have il0: "0 < initial_limit ?r0"
    using assms(3,4) by (cases limit) (auto simp: truthy_def)
  have sv: "serves E (report_id ?r0) src" using assms(1) by simp
  from assms(5) have fst_df: "fst (to_dataframe E r tr limit) = Inr df" by simp
  then obtain res where x: "x = Inr res"
    by (cases x) (simp_all add: fst_to_dataframe [OF assms(2) fp])
  from fst_df obtain j where json: "response_json res = Inr j"
    by (cases "response_json res") (simp_all add: fst_to_dataframe [OF assms(2) fp] x)
  from first_page_page [OF fp [unfolded x] sv il0 json]
  have pg: "page_of src 0 (initial_limit ?r0) j"
    and rid: "report_id r1 = report_id r" and il1: "initial_limit r1 = initial_limit ?r0"
    by (simp_all split: if_splits)
  define il where "il = initial_limit ?r0"
  have rows: "data_rows j = take (nat il) src"
    using pg by (simp add: page_of_def il_def)
  have cur: "paging_current j = int (length (take (nat il) src))"
    and tot: "paging_total j = int (length src)"
    using pg by (simp_all add: page_of_def il_def)
  have "df = src"
  proof (cases "paging_current j = paging_total j")
    case True
    then have "df = data_rows j"
      using fst_df by (simp add: fst_to_dataframe [OF assms(2) fp] x json)
    moreover have "length src \<le> nat il" using True cur tot by simp
    ultimately show ?thesis using rows by simp
  next
    case False
    let ?r2 = "r1\<lparr>instance_id := Some (instanceId j)\<rparr>"
    have fr: "fst (fetch_rest E ?r2 tr1 limit (content_length res) (paging_total j) (instanceId j)
                     (data_rows j)) = Inr df"
      using fst_df False by (simp add: fst_to_dataframe [OF assms(2) fp] x json)
    then obtain chunk where ch: "chunk_limit limit il (content_length res) = Inr chunk"
      using il1 by (auto simp: fst_fetch_rest il_def split: sum.splits)
    have chunk_pos: "0 < chunk"
    proof (cases "truthy limit")
      case True
      then show ?thesis
        using ch assms(4) by (cases limit) (auto simp: chunk_limit_def truthy_def)
    next
      case False
      then show ?thesis
        using ch by (auto simp: chunk_limit_def split: sum.splits)
    qed
    have pf: "parse_futures (data_rows j)
                (map (\<lambda>offset. report_instance_id_coroutine E (report_id r) (instanceId j) offset chunk)
                   (range_up il (int (length src)) chunk)) = Inr df"
      using fr ch il1 rid tot chunk_pos
      by (auto simp: fst_fetch_rest il_def py_range_def split: sum.splits)
    have il_pos: "0 \<le> il" using il0 by (simp add: il_def)
    have "df = data_rows j
                 @ concat (map (\<lambda>offset. take (nat chunk) (drop (nat offset) src))
                             (range_up il (int (length src)) chunk))"
      using assms(1) chunk_pos range_up_nonneg [OF il_pos] pf by (rule parse_futures_pages)
    then show ?thesis
      using rows range_up_chunks [OF chunk_pos il_pos, of src] by simp
  qed
  then show ?thesis by simp
qed

lemma serves_mock_source: "serves (mock_source src bytes) rid src"
  by (auto simp: serves_def mock_source_def mock_env_def page_of_def page_body_def
        response_json_def split: if_splits)

theorem to_dataframe_rows_witness:
  "to_dataframe (mock_source seven_rows 100) new_report [] (Some 2)
     = (Inr seven_rows,
        new_report\<lparr>initial_limit := 2, subtotals_visible := Some False,
                    definition_retrieved := True, filter_obj := Some empty_filter,
                    instance_id := Some ''I1'', dataframe := Some seven_rows\<rparr>,
        [Get_report_definition ''R1'', Post_report_instance 0 2, Get_report_instance ''I1'' 2 2,
         Get_report_instance ''I1'' 4 2, Get_report_instance ''I1'' 6 2])
   \<and> to_dataframe (mock_source seven_rows 100) (new_report\<lparr>parallel := False\<rparr>) [] (Some 2)
     = (Inr seven_rows,
        new_report\<lparr>parallel := False, initial_limit := 2, subtotals_visible := Some False,
                    definition_retrieved := True, filter_obj := Some empty_filter,
                    instance_id := Some ''I1'', dataframe := Some seven_rows\<rparr>,
        [Get_report_definition ''R1'', Post_report_instance 0 2, Get_report_instance ''I1'' 2 2,
         Get_report_instance ''I1'' 4 2, Get_report_instance ''I1'' 6 2])"
proof -
  let ?E = "mock_source seven_rows 100"
  have run: "to_dataframe ?E (new_report\<lparr>parallel := b\<rparr>) [] (Some 2)
     = (Inr seven_rows,
        new_report\<lparr>parallel := b, initial_limit := 2, subtotals_visible := Some False,
                    definition_retrieved := True, filter_obj := Some empty_filter,
                    instance_id := Some ''I1'', dataframe := Some seven_rows\<rparr>,
        [Get_report_definition ''R1'', Post_report_instance 0 2, Get_report_instance ''I1'' 2 2,
         Get_report_instance ''I1'' 4 2, Get_report_instance ''I1'' 6 2])"
    for b
  proof -
    let ?rb = "new_report\<lparr>parallel := b\<rparr>"
    obtain df where td: "to_dataframe ?E ?rb [] (Some 2)
      = (Inr df,
         new_report\<lparr>parallel := b, initial_limit := 2, subtotals_visible := Some False,
                     definition_retrieved := True, filter_obj := Some empty_filter,
                     instance_id := Some ''I1'', dataframe := Some df\<rparr>,
         [Get_report_definition ''R1'', Post_report_instance 0 2, Get_report_instance ''I1'' 2 2,
          Get_report_instance ''I1'' 4 2, Get_report_instance ''I1'' 6 2])"
      using mock_source_run [of b] by blast
    have ctf: "cross_tab_filter ?rb = None"
      by (simp add: new_report_def init_variables_def)
    have "serves ?E (report_id ?rb) seven_rows" by (rule serves_mock_source)
    moreover have "0 < initial_limit ?rb" by (simp add: new_report_def init_variables_def)
    moreover have "\<forall>n. Some (2::int) = Some n \<longrightarrow> 0 \<le> n" by simp
    ultimately have "df = seven_rows"
      using to_dataframe_rows [OF _ ctf _ _ td] by blast
    with td show ?thesis by simp
  qed
  from run [of True] run [of False] show ?thesis
    by (simp add: new_report_def init_variables_def)
qed

text \<open>
  C1 (as stated) fails for a report with a cross-tab filter, whose rows are selected
  after the merge (lines 372 to 392).  The mock source serves seven rows and reports
  \<open>totalCount = 7\<close>; for the cross-tab report after \<open>apply_filters(attr_elements=[])\<close>,
  \<open>to_dataframe\<close> with two rows per page fetches all four pages and returns normally,
  with a frame of no rows.
\<close>

theorem to_dataframe_filtered_counterexample:
  "fst (first_page mock_cross_tab (cross_tab_report\<lparr>initial_limit := 2\<rparr>) [])
     = Inr \<lparr> ok = True, content_length = 100,
             json_body = Some \<lparr> instanceId = ''I1'', paging_current = 2, paging_total = 7,
                                data_rows = [[''a''], [''b'']] \<rparr> \<rparr>
   \<and> snd (snd (to_dataframe mock_cross_tab cross_tab_report [] (Some 2)))
     = [Post_report_instance 0 2, Get_report_instance ''I1'' 2 2, Get_report_instance ''I1'' 4 2,
        Get_report_instance ''I1'' 6 2]
   \<and> fst (to_dataframe mock_cross_tab cross_tab_report [] (Some 2)) = Inr []"
proof -
  let ?E = "mock_cross_tab"
  let ?res = "page seven_rows ''I1'' 100 0 2"
  let ?j = "page_body seven_rows ''I1'' 0 2"
  let ?tr1 = "[Post_report_instance 0 2]"
  let ?tr2 = "?tr1 @ [Get_report_instance ''I1'' 2 2, Get_report_instance ''I1'' 4 2,
                     Get_report_instance ''I1'' 6 2]"
  let ?r1 = "cross_tab_report\<lparr>initial_limit := 2, subtotals_visible := Some False,
                                filter_obj := Some empty_filter\<rparr>"
  have h0: "first_page ?E (cross_tab_report\<lparr>initial_limit := 2\<rparr>) [] = (Inr ?res, ?r1, ?tr1)"
    by (simp add: cross_tab_report_eq first_page_defs mock_cross_tab_def mock_source_def
          mock_env_def new_report_def init_variables_def empty_filter_def Let_def)
  then have h1: "first_page ?E
              (if truthy (Some 2) then cross_tab_report\<lparr>initial_limit := the (Some 2)\<rparr>
               else cross_tab_report) []
            = (Inr ?res, ?r1, ?tr1)"
    by (simp add: truthy_def)
  have h2: "response_json ?res = Inr ?j" by simp
  have h3: "paging_current ?j \<noteq> paging_total ?j"
    by (simp add: page_body_def seven_rows_def)
  have it: "it_total_of 7 2 2 = Inr 3"
    by (simp add: it_total_of_def int_truediv_trunc)
  have rg: "py_range 2 7 2 = Inr [2, 4, 6]"
    by (simp add: py_range_def range_up.simps)
  have "\<exists>df. fetch_rest ?E (?r1\<lparr>instance_id := Some (instanceId ?j)\<rparr>) ?tr1 (Some 2)
              (content_length ?res) (paging_total ?j) (instanceId ?j) (data_rows ?j) = (Inr df, ?tr2)"
    by (simp add: cross_tab_report_eq fetch_rest_def chunk_limit_def truthy_def it rg
          fetch_chunks_future_def report_instance_id_coroutine_def parse_def
          mock_cross_tab_def mock_source_def mock_env_def
          new_report_def init_variables_def page_body_def seven_rows_def)
  then obtain df where fr: "fetch_rest ?E (?r1\<lparr>instance_id := Some (instanceId ?j)\<rparr>) ?tr1 (Some 2)
              (content_length ?res) (paging_total ?j) (instanceId ?j) (data_rows ?j) = (Inr df, ?tr2)"
    by blast
  have ctf: "cross_tab_filter ?r1
               = Some \<lparr>ctf_attributes = None, ctf_metrics = None, ctf_attr_elements = Some []\<rparr>"
    by (simp add: cross_tab_report_eq)
  have td: "to_dataframe ?E cross_tab_report [] (Some 2)
              = (Inr [], ?r1\<lparr>instance_id := Some (instanceId ?j), dataframe := Some []\<rparr>, ?tr2)"
    by (simp only: to_dataframe_unfold [OF h1 h2 h3] fr)
       (simp add: ctf cross_tab_post_no_elements)
  have "?res = \<lparr> ok = True, content_length = 100,
             json_body = Some \<lparr> instanceId = ''I1'', paging_current = 2, paging_total = 7,
                                data_rows = [[''a''], [''b'']] \<rparr> \<rparr>"
    by (simp add: page_def page_body_def seven_rows_def)
  with h0 td show ?thesis by simp
qed

end
